theory Spec2Isabelle
  imports Complex_Main "HOL-Library.Sublist"
begin

section \<open>Annotation validation of deriva.core.annotation\<close>

text \<open>
  A shallow embedding of \<^verbatim>\<open>src/deriva/core/annotation.py\<close>: the lazy schema container,
  the five factories of semantic validation functions, and the orchestrating
  \<^verbatim>\<open>validate\<close> / \<^verbatim>\<open>_validate\<close>. A leading underscore of a Python name is dropped
  (\<^verbatim>\<open>_nop\<close> is \<open>nop\<close>, \<^verbatim>\<open>_validate_columns_fn\<close> is \<open>validate_columns_fn\<close>);
  \<^verbatim>\<open>_validate\<close> is \<open>validate'\<close>. A raised exception is a value of type \<open>exc\<close>.
\<close>

subsection \<open>JSON values as Python sees them\<close>

text \<open>
  An annotation value, a schema document and every \<^verbatim>\<open>instance\<close> handed to a validation
  function is a JSON value. An object is an association list in insertion order (a Python
  dict: keys are distinct, lookup is \<open>map_of\<close>). Numbers are only ever tested for
  truthiness by this module.
\<close>

datatype json =
    JNull
  | JBool bool
  | JNum real
  | JStr string
  | JArr "json list"
  | JObj "(string \<times> json) list"

text \<open>Python truthiness (\<^verbatim>\<open>not value\<close>, \<^verbatim>\<open>if col_name and ...\<close>).\<close>

fun truthy :: "json \<Rightarrow> bool" where
  "truthy JNull = False"
| "truthy (JBool b) = b"
| "truthy (JNum n) = (n \<noteq> 0)"
| "truthy (JStr s) = (s \<noteq> [])"
| "truthy (JArr xs) = (xs \<noteq> [])"
| "truthy (JObj kvs) = (kvs \<noteq> [])"

text \<open>Lists and dicts are unhashable: using one as a set member or dict key raises TypeError.\<close>

fun hashable :: "json \<Rightarrow> bool" where
  "hashable (JArr xs) = False"
| "hashable (JObj kvs) = False"
| "hashable v = True"

text \<open>\<^verbatim>\<open>isinstance(item, list) and len(item) == 2\<close>\<close>

fun is_pair :: "json \<Rightarrow> bool" where
  "is_pair (JArr xs) = (length xs = 2)"
| "is_pair v = False"

subsection \<open>Exceptions\<close>

text \<open>
  A message is kept as the source writes it: the format string and the arguments of the
  \<^verbatim>\<open>%\<close> operator. \<open>render\<close> performs the substitution of \<^verbatim>\<open>%s\<close>; the text of a
  \<^verbatim>\<open>str\<close> argument is the string itself, the text of any other value is Python's
  \<^verbatim>\<open>str()\<close> of it, which \<open>render\<close> takes as a parameter.
\<close>

datatype msg = Fmt string "json list"

fun py_format :: "string \<Rightarrow> string list \<Rightarrow> string" where
  "py_format [] args = []"
| "py_format [c] args = [c]"
| "py_format (c # d # r) args =
     (if c = CHR ''%'' \<and> d = CHR ''s''
      then (case args of [] \<Rightarrow> py_format r [] | a # as \<Rightarrow> a @ py_format r as)
      else c # py_format (d # r) args)"

fun render :: "(json \<Rightarrow> string) \<Rightarrow> msg \<Rightarrow> string" where
  "render str (Fmt f args) =
     py_format f (map (\<lambda>a. case a of JStr s \<Rightarrow> s | _ \<Rightarrow> str a) args)"

text \<open>
  \<^verbatim>\<open>jsonschema.ValidationError(message, cause=..., validator=validator,
  validator_value=value, instance=instance, schema=schema)\<close>: the message, the cause, and
  the triple (validator_value, instance, schema) when the raise passes it. The other
  constructors are the builtin exceptions this module meets; \<open>OtherError\<close> stands for
  any further exception type of a collaborator (a JSON decoding error, an unresolvable
  reference).
\<close>

datatype exc =
    ValidationError msg "exc option" "(json \<times> json \<times> json) option"
  | KeyError
  | FileNotFoundError
  | AttributeError
  | TypeError
  | OtherError string

fun message :: "exc \<Rightarrow> msg option" where
  "message (ValidationError m c d) = Some m"
| "message e = None"

fun cause :: "exc \<Rightarrow> exc option" where
  "cause (ValidationError m c d) = c"
| "cause e = None"

text \<open>
  A validation function as the engine calls it: \<^verbatim>\<open>(validator, value, instance, schema)\<close>,
  without the engine's own \<^verbatim>\<open>validator\<close> object. It returns \<open>None\<close> (Python: returns
  \<^verbatim>\<open>None\<close>) or the exception it raises.
\<close>

type_synonym validation_func = "json \<Rightarrow> json \<Rightarrow> json \<Rightarrow> exc option"

definition nop :: validation_func where
  "nop = (\<lambda>value instance schema. None)"

subsection \<open>The model graph\<close>

text \<open>
  Modelled from the spec: the classes of \<^verbatim>\<open>deriva.core.ermrest_model\<close> are not part of
  the sources; the records hold what \<^verbatim>\<open>annotation.py\<close> reads of them.
  A Column and a Schema are read through \<^verbatim>\<open>.name\<close> only. A Table reached through a
  foreign key is read through \<^verbatim>\<open>.name\<close>, \<^verbatim>\<open>.schema.name\<close> and
  \<^verbatim>\<open>.column_definitions\<close>, and compared by object identity (\<open>oid\<close>).
\<close>

record named =
  name :: string

record Table = named +
  oid :: nat
  schema :: named
  column_definitions :: "named list"

text \<open>
  Modelled from the spec: the classes Key and ForeignKey of \<^verbatim>\<open>ermrest_model\<close>. A
  constraint is identified by its \<^verbatim>\<open>constraint_schema\<close> (which may be \<^verbatim>\<open>None\<close>) and
  \<^verbatim>\<open>constraint_name\<close>; a ForeignKey has the child \<^verbatim>\<open>table\<close> and the parent
  \<^verbatim>\<open>pk_table\<close>.
\<close>

record Key =
  constraint_schema :: "named option"
  constraint_name :: string

record ForeignKey = Key +
  table :: Table
  pk_table :: Table

text \<open>
  Modelled from the spec: the class Model of \<^verbatim>\<open>ermrest_model\<close>, read through
  \<^verbatim>\<open>model.fkey(constraint_name)\<close> only: the global lookup of a foreign key, which fails
  with a not-found error (KeyError, here \<open>None\<close>) when the model has no such constraint.
\<close>

record Model =
  fkey :: "json \<Rightarrow> ForeignKey option"

text \<open>
  Modelled from the spec: a model object (Schema, Table, Column, Key or ForeignKey of
  \<^verbatim>\<open>ermrest_model\<close>) is duck-typed. It always has \<^verbatim>\<open>annotations\<close>; \<open>attrs\<close> lists
  the attributes it has (\<^verbatim>\<open>hasattr(model_obj, a)\<close>), and a field whose attribute is
  absent is never read. \<open>foreign_keys\<close> may hold \<^verbatim>\<open>None\<close> entries; \<open>table\<close> is the
  owning Table of a Column, Key or ForeignKey; \<open>schema_model\<close> is
  \<^verbatim>\<open>model_obj.schema.model\<close>.
\<close>

record model_obj = Table +
  attrs :: "string list"
  annotations :: "(string \<times> json) list"
  keys :: "Key list"
  foreign_keys :: "Key option list"
  table :: Table
  schema_model :: Model

definition hasattr :: "model_obj \<Rightarrow> string \<Rightarrow> bool" where
  "hasattr model_obj a = (a \<in> set (attrs model_obj))"

text \<open>The model object taken as the current table of a path (\<^verbatim>\<open>current_table = model_obj\<close>).\<close>

definition as_table :: "model_obj \<Rightarrow> Table" where
  "as_table model_obj =
     \<lparr>name = name model_obj, oid = oid model_obj, schema = schema model_obj,
      column_definitions = column_definitions model_obj\<rparr>"

subsection \<open>valid-columns\<close>

text \<open>\<^verbatim>\<open>(k.constraint_schema.name if k.constraint_schema else '', k.constraint_name)\<close>\<close>

definition constraint_id :: "'a Key_scheme \<Rightarrow> string \<times> string" where
  "constraint_id k =
     ((case constraint_schema k of Some s \<Rightarrow> name s | None \<Rightarrow> []), constraint_name k)"

text \<open>
  \<^verbatim>\<open>tuple(item) in _constraint_names\<close> for a two-element list: the tuple is hashed first,
  which raises TypeError when a member is a list or a dict; a tuple equals a name pair only
  when both members are the same strings.
\<close>

fun tuple_in :: "json list \<Rightarrow> (string \<times> string) set \<Rightarrow> exc + bool" where
  "tuple_in [a, b] names =
     (if hashable a \<and> hashable b
      then Inr (case (a, b) of (JStr x, JStr y) \<Rightarrow> (x, y) \<in> names | _ \<Rightarrow> False)
      else Inl TypeError)"
| "tuple_in xs names = Inr False"

fun columns_items ::
  "string set \<Rightarrow> (string \<times> string) set \<Rightarrow> json \<times> json \<times> json \<Rightarrow> json list \<Rightarrow> exc option" where
  "columns_items column_names constraint_names ctx [] = None"
| "columns_items column_names constraint_names ctx (item # rest) =
     (case item of
        JStr s \<Rightarrow>
          if s \<notin> column_names
          then Some (ValidationError
                 (Fmt (CHR 0x27 # ''%s' not found in column definitions'') [item])
                 None (Some ctx))
          else columns_items column_names constraint_names ctx rest
      | JArr xs \<Rightarrow>
          if length xs = 2
          then (case tuple_in xs constraint_names of
                  Inl e \<Rightarrow> Some e
                | Inr found \<Rightarrow>
                    if \<not> found
                    then Some (ValidationError
                           (Fmt (CHR 0x27 # ''%s' not found in keys or foreign keys'') [item])
                           None (Some ctx))
                    else columns_items column_names constraint_names ctx rest)
          else columns_items column_names constraint_names ctx rest
      | _ \<Rightarrow> columns_items column_names constraint_names ctx rest)"

definition validate_columns_fn :: "model_obj \<Rightarrow> validation_func" where
  "validate_columns_fn model_obj =
     (if \<not> (hasattr model_obj ''column_definitions'' \<and> hasattr model_obj ''keys''
             \<and> hasattr model_obj ''foreign_keys'')
      then nop
      else
        let column_names = set (map name (column_definitions model_obj));
            key_names = set (map constraint_id (keys model_obj));
            fkey_names = set (map constraint_id (List.map_filter id (foreign_keys model_obj)));
            constraint_names = key_names \<union> fkey_names
        in (\<lambda>value instance schema.
              case instance of
                JArr items \<Rightarrow>
                  if \<not> truthy value then None
                  else columns_items column_names constraint_names (value, instance, schema) items
              | _ \<Rightarrow> None))"

subsection \<open>valid-sort-key\<close>

text \<open>
  \<^verbatim>\<open>col_name not in _column_names\<close> for a value taken from the instance: hashing a list
  or a dict raises TypeError; only a string can be a member of a set of names.
\<close>

fun not_in_names :: "json \<Rightarrow> string set \<Rightarrow> exc + bool" where
  "not_in_names (JStr s) names = Inr (s \<notin> names)"
| "not_in_names (JArr xs) names = Inl TypeError"
| "not_in_names (JObj kvs) names = Inl TypeError"
| "not_in_names v names = Inr True"

text \<open>
  \<^verbatim>\<open>instance if isinstance(instance, str) else instance.get('column') if
  isinstance(instance, dict) else None\<close>, Python's \<^verbatim>\<open>None\<close> being \<open>JNull\<close>.
\<close>

fun sort_key_col_name :: "json \<Rightarrow> json" where
  "sort_key_col_name (JStr s) = JStr s"
| "sort_key_col_name (JObj kvs) = (case map_of kvs ''column'' of Some v \<Rightarrow> v | None \<Rightarrow> JNull)"
| "sort_key_col_name v = JNull"

definition sort_key_func :: "string set \<Rightarrow> validation_func" where
  "sort_key_func column_names =
     (\<lambda>value instance schema.
        if \<not> truthy value then None
        else
          let col_name = sort_key_col_name instance
          in if \<not> truthy col_name then None
             else (case not_in_names col_name column_names of
                     Inl e \<Rightarrow> Some e
                   | Inr missing \<Rightarrow>
                       if missing
                       then Some (ValidationError
                              (Fmt (CHR 0x27 # ''%s' not found in column definitions'') [instance])
                              None (Some (value, instance, schema)))
                       else None))"

text \<open>
  The factory first ascends to the owning table (\<^verbatim>\<open>model_obj = model_obj.table\<close>), which
  is a Table and so has \<^verbatim>\<open>column_definitions\<close>.
\<close>

definition validate_sort_key_fn :: "model_obj \<Rightarrow> validation_func" where
  "validate_sort_key_fn model_obj =
     (if hasattr model_obj ''table''
      then sort_key_func (set (map name (column_definitions (table model_obj))))
      else if \<not> hasattr model_obj ''column_definitions'' then nop
      else sort_key_func (set (map name (column_definitions model_obj))))"

subsection \<open>valid-foreign-keys\<close>

text \<open>
  The loop over the instance: \<^verbatim>\<open>break\<close> at the first item that is not a two-element
  list; KeyError of the lookup becomes a ValidationError with that cause; a foreign key
  whose \<^verbatim>\<open>pk_table\<close> is not the table raises a ValidationError with the message only.
\<close>

fun foreign_keys_items ::
  "Model \<Rightarrow> model_obj \<Rightarrow> json \<times> json \<times> json \<Rightarrow> json list \<Rightarrow> exc option" where
  "foreign_keys_items model tbl ctx [] = None"
| "foreign_keys_items model tbl ctx (item # rest) =
     (if \<not> is_pair item then None
      else (case fkey model item of
              None \<Rightarrow>
                Some (ValidationError (Fmt ''%s not found in foreign keys of model'' [item])
                        (Some KeyError) (Some ctx))
            | Some fk \<Rightarrow>
                if oid (pk_table fk) \<noteq> oid tbl
                then Some (ValidationError
                       (Fmt (''%s does not refer to '%s'' @ [CHR 0x27]) [item, JStr (name tbl)])
                       None None)
                else foreign_keys_items model tbl ctx rest))"

definition validate_foreign_keys_fn :: "model_obj \<Rightarrow> validation_func" where
  "validate_foreign_keys_fn model_obj =
     (if \<not> hasattr model_obj ''schema'' then nop
      else
        let tbl = model_obj; model = schema_model tbl
        in (\<lambda>value instance schema.
              case instance of
                JArr items \<Rightarrow>
                  if \<not> truthy value then None
                  else foreign_keys_items model tbl (value, instance, schema) items
              | _ \<Rightarrow> None))"

subsection \<open>valid-source-key\<close>

text \<open>
  Modelled from the spec: the tag registry \<^verbatim>\<open>ermrest_model.tag\<close> is not part of the
  sources. It is read through \<^verbatim>\<open>tag.items()\<close> (\<open>tag_items\<close>: abbreviation and tag
  name), \<^verbatim>\<open>tag.export\<close> and \<^verbatim>\<open>tag.source_definitions\<close>.
\<close>

record tag_registry =
  tag_items :: "(string \<times> string) list"
  export :: string
  source_definitions :: string

text \<open>
  \<^verbatim>\<open>model_obj.annotations.get(tag.source_definitions, {}).get('sources', {})\<close>: the second
  \<^verbatim>\<open>.get\<close> raises AttributeError when the annotation is not a dict.
\<close>

definition sourcekeys_of :: "tag_registry \<Rightarrow> model_obj \<Rightarrow> exc + json" where
  "sourcekeys_of tag model_obj =
     (case map_of (annotations model_obj) (source_definitions tag) of
        None \<Rightarrow> Inr (JObj [])
      | Some (JObj kvs) \<Rightarrow> Inr (case map_of kvs ''sources'' of Some v \<Rightarrow> v | None \<Rightarrow> JObj [])
      | Some v \<Rightarrow> Inl AttributeError)"

text \<open>
  \<^verbatim>\<open>instance not in sourcekeys\<close> for a string instance: key membership of a dict, element
  membership of a list, substring test of a string, TypeError for anything else.
\<close>

fun str_not_in :: "string \<Rightarrow> json \<Rightarrow> exc + bool" where
  "str_not_in s (JObj kvs) = Inr (s \<notin> set (map fst kvs))"
| "str_not_in s (JArr xs) = Inr (JStr s \<notin> set xs)"
| "str_not_in s (JStr t) = Inr (\<not> sublist s t)"
| "str_not_in s v = Inl TypeError"

definition source_key_func :: "json \<Rightarrow> validation_func" where
  "source_key_func sourcekeys =
     (\<lambda>value instance schema.
        case instance of
          JStr s \<Rightarrow>
            if \<not> truthy value then None
            else (case str_not_in s sourcekeys of
                    Inl e \<Rightarrow> Some e
                  | Inr missing \<Rightarrow>
                      if missing
                      then Some (ValidationError
                             (Fmt (CHR 0x27 # ''%s' not found in source definitions'') [instance])
                             None (Some (value, instance, schema)))
                      else None)
        | _ \<Rightarrow> None)"

definition validate_source_key_fn :: "tag_registry \<Rightarrow> model_obj \<Rightarrow> exc + validation_func" where
  "validate_source_key_fn tag model_obj =
     (case sourcekeys_of tag model_obj of
        Inl e \<Rightarrow> Inl e
      | Inr sourcekeys \<Rightarrow> Inr (source_key_func sourcekeys))"

subsection \<open>valid-source-entry\<close>

text \<open>\<^verbatim>\<open>getattr(fkey, a)\<close> for the two attribute names the path walk uses.\<close>

definition getattr :: "ForeignKey \<Rightarrow> string \<Rightarrow> Table" where
  "getattr fk a = (if a = ''table'' then ForeignKey.table fk else pk_table fk)"

definition directions :: "(string \<times> string \<times> string) list" where
  "directions = [(''outbound'', ''table'', ''pk_table''), (''inbound'', ''pk_table'', ''table'')]"

text \<open>
  \<^verbatim>\<open>any(isinstance(item[io], list) and len(item[io]) == 2
       for io in ['inbound', 'outbound'] if io in item)\<close>
\<close>

definition has_fkey_pair :: "(string \<times> json) list \<Rightarrow> bool" where
  "has_fkey_pair item =
     list_ex (\<lambda>io. case map_of item io of Some v \<Rightarrow> is_pair v | None \<Rightarrow> False)
       [''inbound'', ''outbound'']"

text \<open>
  The inner loop over the directions for one dict item: returns the table the path has
  reached, or the exception raised. \<open>constraint\<close> is the source's local
  \<^verbatim>\<open>constraint_name\<close> (the value \<^verbatim>\<open>item[direction]\<close>).
\<close>

fun source_entry_directions ::
  "Model \<Rightarrow> json \<times> json \<times> json \<Rightarrow> (string \<times> json) list \<Rightarrow> (string \<times> string \<times> string) list
     \<Rightarrow> Table \<Rightarrow> exc + Table" where
  "source_entry_directions model ctx item [] current_table = Inr current_table"
| "source_entry_directions model ctx item
       ((direction, match_with_table, update_current_table) # ds) current_table =
     (case map_of item direction of
        None \<Rightarrow> source_entry_directions model ctx item ds current_table
      | Some constraint \<Rightarrow>
          (case fkey model constraint of
             None \<Rightarrow>
               Inl (ValidationError (Fmt ''%s not found in model fkeys'' [constraint])
                      (Some KeyError) (Some ctx))
           | Some fk \<Rightarrow>
               if oid (getattr fk match_with_table) \<noteq> oid current_table
               then Inl (ValidationError
                      (Fmt ''%s foreign key %s not associated with %s''
                         [JStr direction, constraint,
                          JArr [JStr (name (schema current_table)), JStr (name current_table)]])
                      None (Some ctx))
               else source_entry_directions model ctx item ds
                      (getattr fk update_current_table)))"

fun source_entry_items ::
  "Model \<Rightarrow> json \<times> json \<times> json \<Rightarrow> json list \<Rightarrow> Table \<Rightarrow> exc option" where
  "source_entry_items model ctx [] current_table = None"
| "source_entry_items model ctx (item # rest) current_table =
     (case item of
        JStr s \<Rightarrow>
          if s \<notin> set (map name (column_definitions current_table))
          then Some (ValidationError
                 (Fmt (CHR 0x27 # ''%s' not found in column definitions of table %s'')
                    [item, JArr [JStr (name (schema current_table)), JStr (name current_table)]])
                 None (Some ctx))
          else source_entry_items model ctx rest current_table
      | JObj kvs \<Rightarrow>
          if has_fkey_pair kvs
          then (case source_entry_directions model ctx kvs directions current_table of
                  Inl e \<Rightarrow> Some e
                | Inr t \<Rightarrow> source_entry_items model ctx rest t)
          else None
      | _ \<Rightarrow> None)"

definition validate_source_entry_fn :: "model_obj \<Rightarrow> validation_func" where
  "validate_source_entry_fn model_obj =
     (if \<not> (hasattr model_obj ''column_definitions'' \<and> hasattr model_obj ''schema'') then nop
      else
        let base_column_names = set (map name (column_definitions model_obj));
            model = schema_model model_obj
        in (\<lambda>value instance schema.
              if \<not> truthy value then None
              else (case instance of
                      JStr s \<Rightarrow>
                        if s \<notin> base_column_names
                        then Some (ValidationError
                               (Fmt (CHR 0x27 # ''%s' not found in column definitions'') [instance])
                               None (Some (value, instance, schema)))
                        else None
                    | JArr items \<Rightarrow>
                        source_entry_items model (value, instance, schema) items
                          (as_table model_obj)
                    | _ \<Rightarrow> None)))"

subsection \<open>The schema container and the module state\<close>

text \<open>
  The collaborators outside the sources. \<open>tag\<close> is the tag registry. \<open>get_data\<close> is
  \<^verbatim>\<open>json.loads(pkgutil.get_data(core.__name__, path).decode())\<close> as a whole: the parsed
  document, or the exception raised (FileNotFoundError when the resource is missing).
  \<open>from_schema\<close> is \<^verbatim>\<open>jsonschema.RefResolver.from_schema(schema, store=...)\<close>, and
  \<open>engine keywords schema resolver instance\<close> is
  \<^verbatim>\<open>extend(Draft7Validator, keywords)(schema, resolver=resolver).validate(instance)\<close>:
  \<open>None\<close>, or the first exception raised.
\<close>

type_synonym store = "(json \<times> json) list"

type_synonym resolver = "json \<times> store"

record env =
  tag :: tag_registry
  get_data :: "string \<Rightarrow> exc + json"
  from_schema :: "json \<Rightarrow> store \<Rightarrow> exc + resolver"
  engine :: "(string \<times> validation_func) list \<Rightarrow> json \<Rightarrow> resolver \<Rightarrow> json \<Rightarrow> exc option"

text \<open>
  The module-level state: the dict \<^verbatim>\<open>_schemas._schemas\<close> of loaded documents, and
  \<^verbatim>\<open>_schema_store\<close>, bound once when the module is imported.
\<close>

record module_state =
  schemas :: "string \<rightharpoonup> json"
  schema_store :: store

text \<open>\<^verbatim>\<open>self._abbrev = dict((v, k) for k, v in tag.items())\<close>: a later item wins.\<close>

definition abbrev :: "env \<Rightarrow> string \<rightharpoonup> string" where
  "abbrev E = map_of (rev (map (\<lambda>(k, v). (v, k)) (tag_items (tag E))))"

text \<open>
  \<^verbatim>\<open>_AnnotationSchemas.__getitem__\<close>: the cached document; else the abbreviation
  (KeyError for an unknown tag name), the load, and the store into the cache.
\<close>

definition getitem :: "env \<Rightarrow> string \<Rightarrow> module_state \<Rightarrow> (exc + json) \<times> module_state" where
  "getitem E key st =
     (case schemas st key of
        Some v \<Rightarrow> (Inr v, st)
      | None \<Rightarrow>
          (case abbrev E key of
             None \<Rightarrow> (Inl KeyError, st)
           | Some a \<Rightarrow>
               (case get_data E (py_format ''schemas/%s.schema.json'' [a]) of
                  Inl e \<Rightarrow> (Inl e, st)
                | Inr v \<Rightarrow> (Inr v, st\<lparr>schemas := (schemas st)(key \<mapsto> v)\<rparr>))))"

text \<open>
  \<^verbatim>\<open>schema['$id']\<close>: KeyError when the document is a dict without \<^verbatim>\<open>$id\<close>, TypeError
  when the document is not a dict.
\<close>

fun schema_id :: "json \<Rightarrow> exc + json" where
  "schema_id (JObj kvs) = (case map_of kvs ''$id'' of None \<Rightarrow> Inl KeyError | Some v \<Rightarrow> Inr v)"
| "schema_id v = Inl TypeError"

text \<open>
  Equality of two hashable values as dict keys (\<^verbatim>\<open>True == 1\<close> and \<^verbatim>\<open>False == 0\<close>), and
  \<^verbatim>\<open>d[k] = v\<close> on a dict in insertion order: the value of an equal key is replaced where
  the key stands, a new key is added at the end.
\<close>

fun key_eq :: "json \<Rightarrow> json \<Rightarrow> bool" where
  "key_eq (JBool b) (JNum n) = (n = (if b then 1 else 0))"
| "key_eq (JNum n) (JBool b) = (n = (if b then 1 else 0))"
| "key_eq a b = (a = b)"

fun store_update :: "store \<Rightarrow> json \<Rightarrow> json \<Rightarrow> store" where
  "store_update [] k v = [(k, v)]"
| "store_update ((k', v') # rest) k v =
     (if key_eq k' k then (k', v) # rest else (k', v') # store_update rest k v)"

text \<open>
  The dict comprehension that binds \<^verbatim>\<open>_schema_store\<close>, over
  \<^verbatim>\<open>[tag.export, tag.source_definitions]\<close>: for each tag name the key expression
  \<^verbatim>\<open>_schemas[tag_name]['$id']\<close>, then the value expression \<^verbatim>\<open>_schemas[tag_name]\<close>, then
  the insertion into the dict built so far (\<open>acc\<close>), which raises TypeError for an
  unhashable key and lets a later document replace an earlier one of the same \<^verbatim>\<open>$id\<close>.
\<close>

fun store_entries ::
  "env \<Rightarrow> string list \<Rightarrow> store \<Rightarrow> module_state \<Rightarrow> (exc + store) \<times> module_state" where
  "store_entries E [] acc st = (Inr acc, st)"
| "store_entries E (tag_name # rest) acc st =
     (case getitem E tag_name st of
        (Inl e, st1) \<Rightarrow> (Inl e, st1)
      | (Inr doc, st1) \<Rightarrow>
          (case schema_id doc of
             Inl e \<Rightarrow> (Inl e, st1)
           | Inr k \<Rightarrow>
               (case getitem E tag_name st1 of
                  (Inl e, st2) \<Rightarrow> (Inl e, st2)
                | (Inr v, st2) \<Rightarrow>
                    if \<not> hashable k then (Inl TypeError, st2)
                    else store_entries E rest (store_update acc k v) st2)))"

text \<open>Importing the module: the state \<^verbatim>\<open>validate\<close> starts from, or the exception raised.\<close>

definition module_init :: "env \<Rightarrow> exc + module_state" where
  "module_init E =
     (case store_entries E [export (tag E), source_definitions (tag E)] []
             \<lparr>schemas = Map.empty, schema_store = []\<rparr> of
        (Inl e, st) \<Rightarrow> Inl e
      | (Inr entries, st) \<Rightarrow> Inr (st\<lparr>schema_store := entries\<rparr>))"

subsection \<open>The orchestrator\<close>

text \<open>
  The body of the \<^verbatim>\<open>try\<close> of \<^verbatim>\<open>_validate\<close>: \<open>None\<close> when it completes, or the
  exception raised; \<open>doc\<close> is the source's local \<^verbatim>\<open>schema\<close>. The statements run in
  the source's order: the lookup of the schema, the resolver, the five factories (of which
  only the source-key factory can raise), the engine.
\<close>

definition validate_body ::
  "env \<Rightarrow> model_obj \<Rightarrow> string \<Rightarrow> module_state \<Rightarrow> exc option \<times> module_state" where
  "validate_body E model_obj tag_name st =
     (case map_of (annotations model_obj) tag_name of
        None \<Rightarrow> (None, st)
      | Some annotation \<Rightarrow>
          (case getitem E tag_name st of
             (Inl e, st') \<Rightarrow> (Some e, st')
           | (Inr doc, st') \<Rightarrow>
               (case from_schema E doc (schema_store st') of
                  Inl e \<Rightarrow> (Some e, st')
                | Inr resolver \<Rightarrow>
                    (case validate_source_key_fn (tag E) model_obj of
                       Inl e \<Rightarrow> (Some e, st')
                     | Inr source_key \<Rightarrow>
                         (engine E
                            [(''valid-columns'', validate_columns_fn model_obj),
                             (''valid-source-key'', source_key),
                             (''valid-source-entry'', validate_source_entry_fn model_obj),
                             (''valid-foreign-keys'', validate_foreign_keys_fn model_obj),
                             (''valid-sort-key'', validate_sort_key_fn model_obj)]
                            doc resolver annotation, st')))))"

text \<open>
  The \<^verbatim>\<open>except\<close> clauses of \<^verbatim>\<open>_validate\<close>: \<open>Inr\<close> is the returned list, \<open>Inl\<close> an
  exception no clause catches.
\<close>

fun handle :: "string \<Rightarrow> exc option \<Rightarrow> exc + exc list" where
  "handle tag_name None = Inr []"
| "handle tag_name (Some (ValidationError m c d)) = Inr [ValidationError m c d]"
| "handle tag_name (Some KeyError) =
     Inr [ValidationError (Fmt (''Unknown annotation tag name '' @ [CHR 0x22] @ ''%s'' @ [CHR 0x22])
            [JStr tag_name]) (Some KeyError) None]"
| "handle tag_name (Some FileNotFoundError) = Inr []"
| "handle tag_name (Some e) = Inl e"

definition validate' ::
  "env \<Rightarrow> model_obj \<Rightarrow> string \<Rightarrow> module_state \<Rightarrow> (exc + exc list) \<times> module_state" where
  "validate' E model_obj tag_name st =
     (case validate_body E model_obj tag_name st of
        (raised, st') \<Rightarrow> (handle tag_name raised, st'))"

text \<open>
  The loop of \<^verbatim>\<open>validate\<close> over the tag names of \<^verbatim>\<open>model_obj.annotations\<close>, extending
  \<^verbatim>\<open>errors\<close>; an exception that \<^verbatim>\<open>_validate\<close> lets through ends it.
\<close>

fun validate_each ::
  "env \<Rightarrow> model_obj \<Rightarrow> string list \<Rightarrow> exc list \<Rightarrow> module_state
     \<Rightarrow> (exc + exc list) \<times> module_state" where
  "validate_each E model_obj [] errors st = (Inr errors, st)"
| "validate_each E model_obj (tag_name # rest) errors st =
     (case validate' E model_obj tag_name st of
        (Inl e, st') \<Rightarrow> (Inl e, st')
      | (Inr es, st') \<Rightarrow> validate_each E model_obj rest (errors @ es) st')"

text \<open>
  \<^verbatim>\<open>validate(model_obj, tag_name=None)\<close>; \<^verbatim>\<open>not tag_name\<close> holds for \<^verbatim>\<open>None\<close> and for
  the empty string.
\<close>

definition validate ::
  "env \<Rightarrow> model_obj \<Rightarrow> string option \<Rightarrow> module_state \<Rightarrow> (exc + exc list) \<times> module_state" where
  "validate E model_obj tag_name st =
     (case tag_name of
        None \<Rightarrow> validate_each E model_obj (map fst (annotations model_obj)) [] st
      | Some t \<Rightarrow>
          if t = [] then validate_each E model_obj (map fst (annotations model_obj)) [] st
          else validate' E model_obj t st)"

section \<open>What the validators are specified to check\<close>

subsection \<open>valid-columns\<close>

text \<open>
  The identities of the keys and foreign keys of a table, pooled, and the elements the
  specification has valid-columns reject: a string that is not a column name, or a
  two-element list that is not one of these identities.
\<close>

definition constraint_ids :: "model_obj \<Rightarrow> (string \<times> string) set" where
  "constraint_ids T =
     set (map constraint_id (keys T))
       \<union> set (map constraint_id (List.map_filter id (foreign_keys T)))"

fun names_one_of :: "(string \<times> string) set \<Rightarrow> json list \<Rightarrow> bool" where
  "names_one_of ids [JStr a, JStr b] = ((a, b) \<in> ids)"
| "names_one_of ids xs = False"

fun offending_in :: "string set \<Rightarrow> (string \<times> string) set \<Rightarrow> json \<Rightarrow> bool" where
  "offending_in cols ids (JStr s) = (s \<notin> cols)"
| "offending_in cols ids (JArr xs) = (length xs = 2 \<and> \<not> names_one_of ids xs)"
| "offending_in cols ids v = False"

definition offending :: "model_obj \<Rightarrow> json \<Rightarrow> bool" where
  "offending T = offending_in (set (map name (column_definitions T))) (constraint_ids T)"

text \<open>The error valid-columns raises for an offending element.\<close>

definition columns_error :: "json \<times> json \<times> json \<Rightarrow> json \<Rightarrow> exc" where
  "columns_error ctx item =
     ValidationError
       (Fmt (case item of
               JStr s \<Rightarrow> CHR 0x27 # ''%s' not found in column definitions''
             | _ \<Rightarrow> CHR 0x27 # ''%s' not found in keys or foreign keys'') [item])
       None (Some ctx)"

text \<open>An element that is a two-element list has hashable members (no list, no dict).\<close>

fun scalar_pair :: "json \<Rightarrow> bool" where
  "scalar_pair (JArr xs) = (length xs \<noteq> 2 \<or> list_all hashable xs)"
| "scalar_pair v = True"

fun is_validation_error :: "exc option \<Rightarrow> bool" where
  "is_validation_error (Some (ValidationError m c d)) = True"
| "is_validation_error r = False"

subsection \<open>valid-foreign-keys\<close>

text \<open>
  A pair violates valid-foreign-keys for table \<open>T\<close> when it names no foreign key of the
  model, or one whose \<^verbatim>\<open>pk_table\<close> is not \<open>T\<close>.
\<close>

definition violating :: "model_obj \<Rightarrow> json \<Rightarrow> bool" where
  "violating T item =
     (case fkey (schema_model T) item of
        None \<Rightarrow> True
      | Some fk \<Rightarrow> oid (pk_table fk) \<noteq> oid T)"

definition foreign_keys_error :: "model_obj \<Rightarrow> json \<times> json \<times> json \<Rightarrow> json \<Rightarrow> exc" where
  "foreign_keys_error T ctx item =
     (case fkey (schema_model T) item of
        None \<Rightarrow>
          ValidationError (Fmt ''%s not found in foreign keys of model'' [item])
            (Some KeyError) (Some ctx)
      | Some fk \<Rightarrow>
          ValidationError
            (Fmt (''%s does not refer to '%s'' @ [CHR 0x27]) [item, JStr (name T)]) None None)"

subsection \<open>valid-source-entry\<close>

text \<open>
  The three element forms of a foreign-key path and their JSON: a column name,
  \<^verbatim>\<open>{"outbound": [s, n]}\<close> and \<^verbatim>\<open>{"inbound": [s, n]}\<close>.
\<close>

datatype step = Column string | Outbound json json | Inbound json json

fun encode :: "step \<Rightarrow> json" where
  "encode (Column c) = JStr c"
| "encode (Outbound s n) = JObj [(''outbound'', JArr [s, n])]"
| "encode (Inbound s n) = JObj [(''inbound'', JArr [s, n])]"

text \<open>
  The path as the specification words it: a column must belong to the current table; an
  outbound step needs the constraint to exist with the current table as its child and moves
  to its parent; an inbound step needs the current table as its parent and moves to the
  child.
\<close>

fun follows :: "Model \<Rightarrow> Table \<Rightarrow> step list \<Rightarrow> bool" where
  "follows M cur [] = True"
| "follows M cur (Column c # rest) =
     (c \<in> set (map name (column_definitions cur)) \<and> follows M cur rest)"
| "follows M cur (Outbound s n # rest) =
     (case fkey M (JArr [s, n]) of
        None \<Rightarrow> False
      | Some fk \<Rightarrow> oid (ForeignKey.table fk) = oid cur \<and> follows M (pk_table fk) rest)"
| "follows M cur (Inbound s n # rest) =
     (case fkey M (JArr [s, n]) of
        None \<Rightarrow> False
      | Some fk \<Rightarrow> oid (pk_table fk) = oid cur \<and> follows M (ForeignKey.table fk) rest)"

subsection \<open>The orchestrator\<close>

text \<open>The exception types the \<^verbatim>\<open>except\<close> clauses of \<^verbatim>\<open>_validate\<close> catch.\<close>

fun caught :: "exc \<Rightarrow> bool" where
  "caught (ValidationError m c d) = True"
| "caught KeyError = True"
| "caught FileNotFoundError = True"
| "caught e = False"

text \<open>\<^verbatim>\<open>isinstance(v, dict)\<close>\<close>

fun is_dict :: "json \<Rightarrow> bool" where
  "is_dict (JObj kvs) = True"
| "is_dict v = False"

text \<open>The error \<^verbatim>\<open>_validate\<close> makes of a KeyError.\<close>

definition unknown_tag_error :: "string \<Rightarrow> exc" where
  "unknown_tag_error t =
     ValidationError
       (Fmt (''Unknown annotation tag name '' @ [CHR 0x22] @ ''%s'' @ [CHR 0x22]) [JStr t])
       (Some KeyError) None"

text \<open>
  The invariant of the schema container: a cached document is the one loaded from the
  resource of its tag's abbreviation.
\<close>

definition cache_ok :: "env \<Rightarrow> module_state \<Rightarrow> bool" where
  "cache_ok E st =
     (\<forall>t d. schemas st t = Some d \<longrightarrow>
        (\<exists>a. abbrev E t = Some a
           \<and> get_data E (py_format ''schemas/%s.schema.json'' [a]) = Inr d))"

text \<open>
  Two module states in which every lookup of the schema container answers the same, and
  the reference store is the same.
\<close>

definition same_lookups :: "env \<Rightarrow> module_state \<Rightarrow> module_state \<Rightarrow> bool" where
  "same_lookups E st st' =
     ((\<forall>t. fst (getitem E t st') = fst (getitem E t st))
        \<and> schema_store st' = schema_store st)"

section \<open>A small catalog for the examples\<close>

text \<open>
  Schema \<^verbatim>\<open>s\<close> with table \<^verbatim>\<open>T1\<close> (columns A, B; key (schema1, K1)) and table
  \<^verbatim>\<open>T2\<close> (column X). \<^verbatim>\<open>FK_out\<close> and \<^verbatim>\<open>FK1\<close> lead from the child \<^verbatim>\<open>T1\<close> to the
  parent \<^verbatim>\<open>T2\<close>; \<^verbatim>\<open>FK2\<close> leads from the child \<^verbatim>\<open>T2\<close> to the parent \<^verbatim>\<open>T1\<close>.
\<close>

definition tbl1 :: Table where
  "tbl1 = \<lparr>name = ''T1'', oid = 1, schema = \<lparr>name = ''s''\<rparr>,
           column_definitions = [\<lparr>name = ''A''\<rparr>, \<lparr>name = ''B''\<rparr>]\<rparr>"

definition tbl2 :: Table where
  "tbl2 = \<lparr>name = ''T2'', oid = 2, schema = \<lparr>name = ''s''\<rparr>,
           column_definitions = [\<lparr>name = ''X''\<rparr>]\<rparr>"

definition FK_out :: ForeignKey where
  "FK_out = \<lparr>constraint_schema = Some \<lparr>name = ''s''\<rparr>, constraint_name = ''FK_out'',
             ForeignKey.table = tbl1, pk_table = tbl2\<rparr>"

definition FK1 :: ForeignKey where
  "FK1 = \<lparr>constraint_schema = Some \<lparr>name = ''s''\<rparr>, constraint_name = ''FK1'',
          ForeignKey.table = tbl1, pk_table = tbl2\<rparr>"

definition FK2 :: ForeignKey where
  "FK2 = \<lparr>constraint_schema = Some \<lparr>name = ''s''\<rparr>, constraint_name = ''FK2'',
          ForeignKey.table = tbl2, pk_table = tbl1\<rparr>"

text \<open>
  Modelled from the spec: \<^verbatim>\<open>Model.fkey\<close> is not part of the sources. The lookup finds the
  foreign key with the identity \<^verbatim>\<open>[schema_name, constraint_name]\<close> and fails with a
  not-found error when the model has none.
\<close>

fun fkey_of :: "ForeignKey list \<Rightarrow> json \<Rightarrow> ForeignKey option" where
  "fkey_of fks (JArr [JStr s, JStr n]) = find (\<lambda>fk. constraint_id fk = (s, n)) fks"
| "fkey_of fks v = None"

definition ex_model :: Model where
  "ex_model = \<lparr>fkey = fkey_of [FK_out, FK1, FK2]\<rparr>"

text \<open>The value of a field whose attribute the object does not have.\<close>

definition no_table :: Table where
  "no_table = \<lparr>name = [], oid = 0, schema = \<lparr>name = []\<rparr>, column_definitions = []\<rparr>"

definition table_attrs :: "string list" where
  "table_attrs =
     [''annotations'', ''name'', ''schema'', ''column_definitions'', ''keys'', ''foreign_keys'']"

definition T1 :: model_obj where
  "T1 = \<lparr>name = ''T1'', oid = 1, schema = \<lparr>name = ''s''\<rparr>,
         column_definitions = [\<lparr>name = ''A''\<rparr>, \<lparr>name = ''B''\<rparr>],
         attrs = table_attrs,
         annotations = [],
         keys = [\<lparr>constraint_schema = Some \<lparr>name = ''schema1''\<rparr>, constraint_name = ''K1''\<rparr>],
         foreign_keys =
           [Some \<lparr>constraint_schema = Some \<lparr>name = ''s''\<rparr>, constraint_name = ''FK_out''\<rparr>,
            None,
            Some \<lparr>constraint_schema = Some \<lparr>name = ''s''\<rparr>, constraint_name = ''FK1''\<rparr>],
         table = no_table,
         schema_model = ex_model\<rparr>"

definition T2 :: model_obj where
  "T2 = \<lparr>name = ''T2'', oid = 2, schema = \<lparr>name = ''s''\<rparr>,
         column_definitions = [\<lparr>name = ''X''\<rparr>],
         attrs = table_attrs,
         annotations = [],
         keys = [],
         foreign_keys =
           [Some \<lparr>constraint_schema = Some \<lparr>name = ''s''\<rparr>, constraint_name = ''FK2''\<rparr>],
         table = no_table,
         schema_model = ex_model\<rparr>"

text \<open>
  A registry of four tags. The resources of three of them exist; the schema of
  \<^verbatim>\<open>visible_columns\<close> consists of the keyword \<^verbatim>\<open>valid-columns\<close>; \<^verbatim>\<open>display\<close> has no
  schema resource.
\<close>

definition ex_tag :: tag_registry where
  "ex_tag =
     \<lparr>tag_items =
        [(''export'', ''tag:isrd.isi.edu,2016:export''),
         (''source_definitions'', ''tag:isrd.isi.edu,2019:source-definitions''),
         (''visible_columns'', ''tag:isrd.isi.edu,2016:visible-columns''),
         (''display'', ''tag:misd.isi.edu,2015:display'')],
      export = ''tag:isrd.isi.edu,2016:export'',
      source_definitions = ''tag:isrd.isi.edu,2019:source-definitions''\<rparr>"

definition export_doc :: json where
  "export_doc = JObj [(''$id'', JStr ''export.schema.json'')]"

definition source_definitions_doc :: json where
  "source_definitions_doc = JObj [(''$id'', JStr ''source_definitions.schema.json'')]"

definition visible_columns_doc :: json where
  "visible_columns_doc = JObj [(''valid-columns'', JBool True)]"

definition ex_get_data :: "string \<Rightarrow> exc + json" where
  "ex_get_data path =
     (if path = ''schemas/export.schema.json'' then Inr export_doc
      else if path = ''schemas/source_definitions.schema.json'' then Inr source_definitions_doc
      else if path = ''schemas/visible_columns.schema.json'' then Inr visible_columns_doc
      else Inl FileNotFoundError)"

text \<open>
  An engine for the examples: the run of the extended validator on a schema object that
  holds extension keywords only. Each keyword's function is called with the keyword's
  value, the instance and the schema, in the order of the schema's keys; the first
  exception ends the run.
\<close>

fun keyword_run ::
  "(string \<times> validation_func) list \<Rightarrow> json \<Rightarrow> json \<Rightarrow> (string \<times> json) list \<Rightarrow> exc option" where
  "keyword_run keywords doc inst [] = None"
| "keyword_run keywords doc inst ((k, v) # rest) =
     (case map_of keywords k of
        None \<Rightarrow> keyword_run keywords doc inst rest
      | Some f \<Rightarrow>
          (case f v inst doc of
             Some e \<Rightarrow> Some e
           | None \<Rightarrow> keyword_run keywords doc inst rest))"

definition keyword_engine ::
  "(string \<times> validation_func) list \<Rightarrow> json \<Rightarrow> resolver \<Rightarrow> json \<Rightarrow> exc option" where
  "keyword_engine keywords doc resolver inst =
     (case doc of JObj kvs \<Rightarrow> keyword_run keywords doc inst kvs | _ \<Rightarrow> None)"

definition ex_env :: env where
  "ex_env =
     \<lparr>tag = ex_tag, get_data = ex_get_data,
      from_schema = (\<lambda>doc store. Inr (doc, store)),
      engine = keyword_engine\<rparr>"

text \<open>The module state after the import with \<open>ex_env\<close>.\<close>

definition ex_state :: module_state where
  "ex_state =
     \<lparr>schemas =
        [''tag:isrd.isi.edu,2016:export'' \<mapsto> export_doc,
         ''tag:isrd.isi.edu,2019:source-definitions'' \<mapsto> source_definitions_doc],
      schema_store =
        [(JStr ''export.schema.json'', export_doc),
         (JStr ''source_definitions.schema.json'', source_definitions_doc)]\<rparr>"

text \<open>
  \<^verbatim>\<open>T1\<close> carrying annotations: a visible-columns list with a column that does not exist;
  a source-definitions annotation that is a string; two annotations under tag names that
  are not registered.
\<close>

definition T1_visible :: model_obj where
  "T1_visible =
     T1\<lparr>annotations :=
          [(''tag:isrd.isi.edu,2016:visible-columns'',
            JArr [JStr ''A'', JArr [JStr ''schema1'', JStr ''K1''], JStr ''C''])]\<rparr>"

definition T1_sources :: model_obj where
  "T1_sources =
     T1\<lparr>annotations := [(''tag:isrd.isi.edu,2019:source-definitions'', JStr ''abc'')]\<rparr>"

definition T1_unknown :: model_obj where
  "T1_unknown = T1\<lparr>annotations := [(''tag:a'', JNull), (''tag:b'', JNull)]\<rparr>"

text \<open>
  \<^verbatim>\<open>T1\<close> with a visible-columns list of two columns that do not exist, and with an
  annotation under the tag whose schema resource is missing.
\<close>

definition T1_two_missing :: model_obj where
  "T1_two_missing =
     T1\<lparr>annotations :=
          [(''tag:isrd.isi.edu,2016:visible-columns'', JArr [JStr ''C'', JStr ''D''])]\<rparr>"

text \<open>
  \<^verbatim>\<open>T1\<close> with a visible-columns list that names an existing column, alone and beside a
  source-definitions annotation that is \<^verbatim>\<open>null\<close>.
\<close>

definition T1_valid :: model_obj where
  "T1_valid =
     T1\<lparr>annotations := [(''tag:isrd.isi.edu,2016:visible-columns'', JArr [JStr ''A''])]\<rparr>"

definition T1_null_sources :: model_obj where
  "T1_null_sources =
     T1\<lparr>annotations :=
          [(''tag:isrd.isi.edu,2016:visible-columns'', JArr [JStr ''A'']),
           (''tag:isrd.isi.edu,2019:source-definitions'', JNull)]\<rparr>"

definition T1_display :: model_obj where
  "T1_display = T1\<lparr>annotations := [(''tag:misd.isi.edu,2015:display'', JObj [])]\<rparr>"

section \<open>The semantic validators\<close>

subsection \<open>valid-columns\<close>

lemma tuple_in_hashable:
  assumes "length xs = 2" and "list_all hashable xs"
  shows "tuple_in xs ids = Inr (names_one_of ids xs)"
proof -
  from assms(1) obtain a b where xs: "xs = [a, b]"
    by (cases xs; simp) (metis length_0_conv Suc_length_conv)
  from assms(2) xs show ?thesis
    by (cases a; cases b; simp)
qed

lemma columns_items_find:
  "list_all scalar_pair elems \<Longrightarrow>
   columns_items cols ids ctx elems
     = (case find (offending_in cols ids) elems of
          None \<Rightarrow> None
        | Some item \<Rightarrow> Some (columns_error ctx item))"
proof (induction elems)
  case Nil
  then show ?case by simp
next
  case (Cons item rest)
  show ?case
  proof (cases item)
    case (JStr s)
    with Cons show ?thesis by (simp add: columns_error_def)
  next
    case (JArr xs)
    with Cons show ?thesis
      by (cases "length xs = 2") (simp_all add: columns_error_def tuple_in_hashable)
  qed (use Cons in simp_all)
qed

lemma find_Some_list_ex: "(find P xs \<noteq> None) = list_ex P xs"
  by (induction xs) simp_all

lemma tuple_in_cases:
  assumes "length xs = 2"
  shows "tuple_in xs ids
           = (if list_all hashable xs then Inr (names_one_of ids xs) else Inl TypeError)
         \<and> (\<not> list_all hashable xs \<longrightarrow> \<not> names_one_of ids xs)"
proof -
  from assms obtain a b where xs: "xs = [a, b]"
    by (cases xs; simp) (metis length_0_conv Suc_length_conv)
  show ?thesis unfolding xs
    by (cases a; cases b; simp)
qed

lemma columns_items_raises:
  "(columns_items cols ids ctx elems \<noteq> None) = list_ex (offending_in cols ids) elems"
proof (induction elems)
  case Nil
  then show ?case by simp
next
  case (Cons item rest)
  show ?case
  proof (cases item)
    case (JStr s)
    with Cons show ?thesis by simp
  next
    case (JArr xs)
    show ?thesis
    proof (cases "length xs = 2")
      case True
      from tuple_in_cases [OF True, of ids] Cons JArr True show ?thesis
        by (cases "list_all hashable xs") simp_all
    next
      case False
      with Cons JArr show ?thesis by simp
    qed
  qed (use Cons in simp_all)
qed

text \<open>
  Where valid-columns does what is specified. For a table \<open>T\<close> that has
  \<^verbatim>\<open>column_definitions\<close>, \<^verbatim>\<open>keys\<close> and \<^verbatim>\<open>foreign_keys\<close>, with the keyword enabled, and a
  list instance: the function raises exactly when some element is a string that is not a
  column name of \<open>T\<close> or a two-element list that is not the identity of a key or foreign
  key of \<open>T\<close>; every other element is skipped. When the two-element lists of the instance
  have hashable members, what it raises is a ValidationError, the one of the first such
  element.
\<close>

theorem valid_columns_first_offending:
  assumes "hasattr T ''column_definitions''" and "hasattr T ''keys''"
    and "hasattr T ''foreign_keys''" and "truthy val"
  shows "(validate_columns_fn T val (JArr elems) sch \<noteq> None) = list_ex (offending T) elems
         \<and> (list_all scalar_pair elems \<longrightarrow>
              validate_columns_fn T val (JArr elems) sch
                = (case find (offending T) elems of
                     None \<Rightarrow> None
                   | Some item \<Rightarrow> Some (columns_error (val, JArr elems, sch) item))
              \<and> is_validation_error (validate_columns_fn T val (JArr elems) sch)
                  = list_ex (offending T) elems)"
proof -
  have loop: "validate_columns_fn T val (JArr elems) sch
           = columns_items (set (map name (column_definitions T))) (constraint_ids T)
               (val, JArr elems, sch) elems"
    using assms
    by (simp add: validate_columns_fn_def Let_def constraint_ids_def del: set_map)
  have raises: "(validate_columns_fn T val (JArr elems) sch \<noteq> None)
                  = list_ex (offending T) elems"
    by (simp only: loop columns_items_raises offending_def)
  have run: "validate_columns_fn T val (JArr elems) sch
           = (case find (offending T) elems of
                None \<Rightarrow> None
              | Some item \<Rightarrow> Some (columns_error (val, JArr elems, sch) item))"
    if "list_all scalar_pair elems"
    using that by (simp only: loop columns_items_find offending_def)
  have "is_validation_error (validate_columns_fn T val (JArr elems) sch)
          = list_ex (offending T) elems"
    if s: "list_all scalar_pair elems"
    unfolding run [OF s] find_Some_list_ex [symmetric]
    by (cases "find (offending T) elems") (simp_all add: columns_error_def)
  with raises run show ?thesis by blast
qed

text \<open>
  The example of the specification: columns A and B, key (schema1, K1), and the instance
  \<^verbatim>\<open>["A", ["schema1", "K1"], "C"]\<close> give the one error that refers to \<^verbatim>\<open>"C"\<close>.
\<close>

theorem valid_columns_example:
  "hasattr T1 ''column_definitions'' \<and> hasattr T1 ''keys'' \<and> hasattr T1 ''foreign_keys''
   \<and> validate_columns_fn T1 (JBool True)
        (JArr [JStr ''A'', JArr [JStr ''schema1'', JStr ''K1''], JStr ''C'']) visible_columns_doc
      = Some (ValidationError
          (Fmt (CHR 0x27 # ''%s' not found in column definitions'') [JStr ''C''])
          None
          (Some (JBool True, JArr [JStr ''A'', JArr [JStr ''schema1'', JStr ''K1''], JStr ''C''],
                 visible_columns_doc)))"
  using valid_columns_first_offending
          [of T1 "JBool True" "[JStr ''A'', JArr [JStr ''schema1'', JStr ''K1''], JStr ''C'']"
              visible_columns_doc]
  by (simp add: T1_def table_attrs_def hasattr_def offending_def constraint_ids_def
        constraint_id_def columns_error_def)

text \<open>
  C3. The valid-columns function is specified to report an error exactly when some element
  is a string that is not a column name of the table, or a two-element list that is not
  the identity of a key or foreign key of it. The code does not for a two-element list
  with a list or a dict among its members: \<^verbatim>\<open>[[], "K1"]\<close> is such a list and not the
  identity of a key or foreign key of \<open>T1\<close>, and \<^verbatim>\<open>tuple(item) not in _constraint_names\<close>
  raises TypeError (the tuple cannot be hashed), not a ValidationError. The sibling
  two-element list \<^verbatim>\<open>[1, 2]\<close>, as little a constraint name, gets the ValidationError.
\<close>

theorem valid_columns_unhashable_pair:
  "offending T1 (JArr [JArr [], JStr ''K1''])
   \<and> validate_columns_fn T1 (JBool True) (JArr [JArr [JArr [], JStr ''K1'']]) visible_columns_doc
       = Some TypeError
   \<and> \<not> is_validation_error
         (validate_columns_fn T1 (JBool True) (JArr [JArr [JArr [], JStr ''K1'']])
            visible_columns_doc)
   \<and> offending T1 (JArr [JNum 1, JNum 2])
   \<and> validate_columns_fn T1 (JBool True) (JArr [JArr [JNum 1, JNum 2]]) visible_columns_doc
       = Some (ValidationError
           (Fmt (CHR 0x27 # ''%s' not found in keys or foreign keys'') [JArr [JNum 1, JNum 2]])
           None
           (Some (JBool True, JArr [JArr [JNum 1, JNum 2]], visible_columns_doc)))"
  by (simp add: validate_columns_fn_def T1_def table_attrs_def hasattr_def offending_def
        constraint_ids_def)

subsection \<open>valid-foreign-keys\<close>

lemma foreign_keys_items_find:
  "foreign_keys_items (schema_model T) T ctx elems
     = (case find (violating T) (takeWhile is_pair elems) of
          None \<Rightarrow> None
        | Some item \<Rightarrow> Some (foreign_keys_error T ctx item))"
proof (induction elems)
  case Nil
  then show ?case by simp
next
  case (Cons item rest)
  then show ?case
    by (simp add: violating_def foreign_keys_error_def split: option.splits)
qed

text \<open>
  C2. For a table \<open>T\<close> with a \<^verbatim>\<open>schema\<close> back-reference, the keyword enabled and a list
  instance, the valid-foreign-keys function checks exactly the elements before the first
  one that is not a two-element list (\<open>takeWhile is_pair\<close>): the result is the error of the
  first of them that names no foreign key of the model or one whose \<^verbatim>\<open>pk_table\<close> is not
  \<open>T\<close>, and no error when there is none. Elements from the first non-pair on play no part.
\<close>

theorem valid_foreign_keys_checked_prefix:
  assumes "hasattr T ''schema''" and "truthy val"
  shows "validate_foreign_keys_fn T val (JArr elems) sch
           = (case find (violating T) (takeWhile is_pair elems) of
                None \<Rightarrow> None
              | Some item \<Rightarrow> Some (foreign_keys_error T (val, JArr elems, sch) item))"
  using assms
  by (simp add: validate_foreign_keys_fn_def Let_def foreign_keys_items_find)

text \<open>
  The example of the specification: \<^verbatim>\<open>T2\<close> is the parent of (s, FK1) and not of
  (s, FK2); \<^verbatim>\<open>[["s", "FK1"], ["s", "FK2"]]\<close> gives the one error, which refers to FK2.
\<close>

theorem valid_foreign_keys_example:
  "hasattr T2 ''schema''
   \<and> validate_foreign_keys_fn T2 (JBool True)
        (JArr [JArr [JStr ''s'', JStr ''FK1''], JArr [JStr ''s'', JStr ''FK2'']]) (JObj [])
      = Some (ValidationError
          (Fmt (''%s does not refer to '%s'' @ [CHR 0x27])
             [JArr [JStr ''s'', JStr ''FK2''], JStr ''T2''])
          None None)"
  using valid_foreign_keys_checked_prefix
          [of T2 "JBool True" "[JArr [JStr ''s'', JStr ''FK1''], JArr [JStr ''s'', JStr ''FK2'']]"
              "JObj []"]
  by (simp add: T2_def table_attrs_def hasattr_def violating_def foreign_keys_error_def
        ex_model_def FK_out_def FK1_def FK2_def tbl1_def tbl2_def constraint_id_def)

subsection \<open>valid-source-entry\<close>

lemma has_fkey_pair_encode [simp]:
  "has_fkey_pair [(''outbound'', JArr [s, n])]"
  "has_fkey_pair [(''inbound'', JArr [s, n])]"
  by (simp_all add: has_fkey_pair_def)

lemma directions_outbound:
  "source_entry_directions M ctx [(''outbound'', JArr [s, n])] directions cur
     = (case fkey M (JArr [s, n]) of
          None \<Rightarrow> Inl (ValidationError (Fmt ''%s not found in model fkeys'' [JArr [s, n]])
                        (Some KeyError) (Some ctx))
        | Some fk \<Rightarrow>
            if oid (ForeignKey.table fk) \<noteq> oid cur
            then Inl (ValidationError
                   (Fmt ''%s foreign key %s not associated with %s''
                      [JStr ''outbound'', JArr [s, n],
                       JArr [JStr (name (schema cur)), JStr (name cur)]])
                   None (Some ctx))
            else Inr (pk_table fk))"
  by (simp add: directions_def getattr_def split: option.splits)

lemma directions_inbound:
  "source_entry_directions M ctx [(''inbound'', JArr [s, n])] directions cur
     = (case fkey M (JArr [s, n]) of
          None \<Rightarrow> Inl (ValidationError (Fmt ''%s not found in model fkeys'' [JArr [s, n]])
                        (Some KeyError) (Some ctx))
        | Some fk \<Rightarrow>
            if oid (pk_table fk) \<noteq> oid cur
            then Inl (ValidationError
                   (Fmt ''%s foreign key %s not associated with %s''
                      [JStr ''inbound'', JArr [s, n],
                       JArr [JStr (name (schema cur)), JStr (name cur)]])
                   None (Some ctx))
            else Inr (ForeignKey.table fk))"
  by (simp add: directions_def getattr_def split: option.splits)

lemma source_entry_items_follows:
  "(source_entry_items M ctx (map encode path) cur = None) = follows M cur path
   \<and> is_validation_error (source_entry_items M ctx (map encode path) cur)
       = (\<not> follows M cur path)"
proof (induction path arbitrary: cur)
  case Nil
  then show ?case by simp
next
  case (Cons st rest)
  show ?case
  proof (cases st)
    case (Column c)
    with Cons show ?thesis by simp
  next
    case (Outbound s n)
    with Cons show ?thesis
      by (simp add: directions_outbound split: option.splits)
  next
    case (Inbound s n)
    with Cons show ?thesis
      by (simp add: directions_inbound split: option.splits)
  qed
qed

text \<open>
  C1. For a table \<open>T\<close> that has \<^verbatim>\<open>column_definitions\<close> and a \<^verbatim>\<open>schema\<close>
  back-reference, with the keyword enabled, the valid-source-entry function walks a list
  instance of column names, \<^verbatim>\<open>{"outbound": [s, n]}\<close> and \<^verbatim>\<open>{"inbound": [s, n]}\<close> elements
  as a foreign-key path that starts at \<open>T\<close> (\<open>follows\<close>): a column must belong to the
  current table; an outbound element needs the constraint to exist in the model with the
  current table as its child and moves to its parent; an inbound element needs the current
  table as its parent and moves to the child. It returns without error exactly when the
  path can be followed, and raises a ValidationError otherwise.
\<close>

theorem valid_source_entry_follows_path:
  assumes "hasattr T ''column_definitions''" and "hasattr T ''schema''" and "truthy val"
  shows "(validate_source_entry_fn T val (JArr (map encode path)) sch = None)
           = follows (schema_model T) (as_table T) path
         \<and> is_validation_error (validate_source_entry_fn T val (JArr (map encode path)) sch)
             = (\<not> follows (schema_model T) (as_table T) path)"
  using assms
  by (simp add: validate_source_entry_fn_def Let_def source_entry_items_follows)

text \<open>
  The example of the specification: \<^verbatim>\<open>T1\<close> is the child of FK_out, whose parent
  \<^verbatim>\<open>T2\<close> has column X. From \<^verbatim>\<open>T1\<close>, \<^verbatim>\<open>[{"outbound": ["s", "FK_out"]}, "X"]\<close> gives no
  error, and \<^verbatim>\<open>[{"inbound": ["s", "FK_out"]}, "X"]\<close> gives the error that the inbound
  foreign key is not associated with \<^verbatim>\<open>T1\<close>.
\<close>

theorem valid_source_entry_example:
  "hasattr T1 ''column_definitions'' \<and> hasattr T1 ''schema''
   \<and> validate_source_entry_fn T1 (JBool True)
        (JArr [JObj [(''outbound'', JArr [JStr ''s'', JStr ''FK_out''])], JStr ''X'']) (JObj [])
      = None
   \<and> validate_source_entry_fn T1 (JBool True)
        (JArr [JObj [(''inbound'', JArr [JStr ''s'', JStr ''FK_out''])], JStr ''X'']) (JObj [])
      = Some (ValidationError
          (Fmt ''%s foreign key %s not associated with %s''
             [JStr ''inbound'', JArr [JStr ''s'', JStr ''FK_out''],
              JArr [JStr ''s'', JStr ''T1'']])
          None
          (Some (JBool True,
                 JArr [JObj [(''inbound'', JArr [JStr ''s'', JStr ''FK_out''])], JStr ''X''],
                 JObj [])))
   \<and> \<not> follows (schema_model T1) (as_table T1)
         [Inbound (JStr ''s'') (JStr ''FK_out''), Column ''X'']"
  using valid_source_entry_follows_path
          [of T1 "JBool True" "[Outbound (JStr ''s'') (JStr ''FK_out''), Column ''X'']" "JObj []"]
        valid_source_entry_follows_path
          [of T1 "JBool True" "[Inbound (JStr ''s'') (JStr ''FK_out''), Column ''X'']" "JObj []"]
  by (simp add: T1_def table_attrs_def hasattr_def as_table_def
        ex_model_def FK_out_def FK1_def FK2_def tbl1_def tbl2_def constraint_id_def
        validate_source_entry_fn_def directions_inbound)

section \<open>The schema container\<close>

lemma getitem_store [simp]: "schema_store (snd (getitem E k st)) = schema_store st"
  by (simp add: getitem_def split: option.splits sum.splits)

lemma getitem_same: "same_lookups E st (snd (getitem E k st))"
  by (auto simp add: same_lookups_def getitem_def split: option.splits sum.splits)

lemma same_lookups_refl [simp]: "same_lookups E st st"
  by (simp add: same_lookups_def)

lemma same_lookups_trans:
  "same_lookups E a b \<Longrightarrow> same_lookups E b c \<Longrightarrow> same_lookups E a c"
  by (simp add: same_lookups_def)

lemma same_lookups_sym: "same_lookups E a b \<Longrightarrow> same_lookups E b a"
  by (simp add: same_lookups_def)

lemma cache_okD:
  "cache_ok E st \<Longrightarrow> schemas st t = Some d \<Longrightarrow>
   \<exists>a. abbrev E t = Some a \<and> get_data E (py_format ''schemas/%s.schema.json'' [a]) = Inr d"
  unfolding cache_ok_def by blast

lemma getitem_unregistered:
  assumes "abbrev E t = None" and "cache_ok E st"
  shows "getitem E t st = (Inl KeyError, st)"
proof (cases "schemas st t")
  case None
  with assms show ?thesis by (simp add: getitem_def)
next
  case (Some d)
  from cache_okD [OF assms(2) Some] assms(1) show ?thesis by simp
qed

lemma getitem_missing:
  assumes "abbrev E t = Some a"
    and "get_data E (py_format ''schemas/%s.schema.json'' [a]) = Inl e"
    and "cache_ok E st"
  shows "getitem E t st = (Inl e, st)"
proof (cases "schemas st t")
  case None
  with assms show ?thesis by (simp add: getitem_def)
next
  case (Some d)
  from cache_okD [OF assms(3) Some] assms(1,2) show ?thesis by auto
qed

text \<open>The invariant holds after the import and is kept by every lookup.\<close>

lemma getitem_cache_ok: "cache_ok E st \<Longrightarrow> cache_ok E (snd (getitem E k st))"
  by (auto simp add: getitem_def cache_ok_def split: option.splits sum.splits)

lemma store_entries_cache_ok:
  "cache_ok E st \<Longrightarrow> cache_ok E (snd (store_entries E ts acc st))"
proof (induction ts arbitrary: acc st)
  case Nil
  then show ?case by simp
next
  case (Cons t ts)
  have 1: "cache_ok E (snd (getitem E t st))"
    using Cons.prems by (rule getitem_cache_ok)
  then have 2: "cache_ok E (snd (getitem E t (snd (getitem E t st))))"
    by (rule getitem_cache_ok)
  from Cons.IH [OF 2] 1 2 show ?case
    by (auto split: prod.splits sum.splits)
qed

lemma module_init_cache_ok: "module_init E = Inr st \<Longrightarrow> cache_ok E st"
proof -
  assume a: "module_init E = Inr st"
  have "cache_ok E \<lparr>schemas = Map.empty, schema_store = []\<rparr>"
    by (simp add: cache_ok_def)
  from store_entries_cache_ok
         [OF this, of "[export (tag E), source_definitions (tag E)]" "[]"] a
  show ?thesis
    by (auto simp add: module_init_def cache_ok_def split: prod.splits sum.splits)
qed

text \<open>
  The reference store is a dict: its keys are pairwise different, and a document whose
  \<^verbatim>\<open>$id\<close> is already a key replaces the earlier document.
\<close>

lemma key_eq_refl [simp]: "key_eq k k"
  by (cases k) simp_all

lemma store_update_replaces: "store_update (store_update acc k a) k b = store_update acc k b"
  by (induction acc) auto

lemma store_update_same_id: "store_update [(k, a)] k b = [(k, b)]"
  by simp

section \<open>The orchestrator\<close>

subsection \<open>One tag, all tags\<close>

lemma validate_single: "t \<noteq> [] \<Longrightarrow> validate E obj (Some t) st = validate' E obj t st"
  by (simp add: validate_def)

lemma validate'_absent:
  "map_of (annotations obj) t = None \<Longrightarrow> validate' E obj t st = (Inr [], st)"
  by (simp add: validate'_def validate_body_def)

lemma validate_body_state:
  "snd (validate_body E obj t st) = st
   \<or> snd (validate_body E obj t st) = snd (getitem E t st)"
  by (simp add: validate_body_def split: option.splits sum.splits prod.splits)

lemma handle_cases:
  "(case handle t r of Inr errors \<Rightarrow> length errors \<le> 1 | Inl e \<Rightarrow> \<not> caught e)"
proof (cases r)
  case None
  then show ?thesis by simp
next
  case (Some e)
  then show ?thesis by (cases e) simp_all
qed

lemma validate'_cases:
  "(case fst (validate' E obj t st) of Inr errors \<Rightarrow> length errors \<le> 1 | Inl e \<Rightarrow> \<not> caught e)"
  using handle_cases [of t "fst (validate_body E obj t st)"]
  by (simp add: validate'_def case_prod_beta)

lemma validate'_uncaught: "fst (validate' E obj t st) = Inl e \<Longrightarrow> \<not> caught e"
  using validate'_cases [of E obj t st] by simp

lemma validate_each_uncaught:
  "fst (validate_each E obj ts errs st) = Inl e \<Longrightarrow> \<not> caught e"
proof (induction ts arbitrary: errs st)
  case Nil
  then show ?case by simp
next
  case (Cons t ts)
  obtain r1 a1 where a: "validate' E obj t st = (r1, a1)" by (cases "validate' E obj t st")
  show ?case
  proof (cases r1)
    case (Inl x)
    with a Cons.prems have "x = e" by simp
    with validate'_uncaught [of E obj t st x] a Inl show ?thesis by simp
  next
    case (Inr es)
    with a Cons.prems have "fst (validate_each E obj ts (errs @ es) a1) = Inl e" by simp
    then show ?thesis by (rule Cons.IH)
  qed
qed

lemma validate_body_cache_ok: "cache_ok E st \<Longrightarrow> cache_ok E (snd (validate_body E obj t st))"
  using validate_body_state [of E obj t st] getitem_cache_ok [of E st t] by auto

lemma validate'_cache_ok: "cache_ok E st \<Longrightarrow> cache_ok E (snd (validate' E obj t st))"
  using validate_body_cache_ok [of E st obj t] by (simp add: validate'_def case_prod_beta)

lemma validate_each_cache_ok:
  "cache_ok E st \<Longrightarrow> cache_ok E (snd (validate_each E obj ts errs st))"
proof (induction ts arbitrary: errs st)
  case Nil
  then show ?case by simp
next
  case (Cons t ts)
  obtain r1 a1 where a: "validate' E obj t st = (r1, a1)" by (cases "validate' E obj t st")
  from validate'_cache_ok [OF Cons.prems, of obj t] a have s: "cache_ok E a1" by simp
  show ?case
  proof (cases r1)
    case (Inl e)
    with a s show ?thesis by simp
  next
    case (Inr es)
    with a Cons.IH [OF s, of "errs @ es"] show ?thesis by simp
  qed
qed

lemma validate_cache_ok: "cache_ok E st \<Longrightarrow> cache_ok E (snd (validate E obj tag_name st))"
  by (simp add: validate_def validate_each_cache_ok validate'_cache_ok split: option.splits)

subsection \<open>The cache does not change what a lookup answers\<close>

lemma validate_body_same: "same_lookups E st (snd (validate_body E obj t st))"
  using validate_body_state [of E obj t st] getitem_same [of E st t] by auto

lemma validate_body_cong:
  assumes "same_lookups E st st2"
  shows "fst (validate_body E obj t st2) = fst (validate_body E obj t st)"
proof -
  from assms have g: "fst (getitem E t st2) = fst (getitem E t st)"
    and s: "schema_store st2 = schema_store st"
    by (simp_all add: same_lookups_def)
  have s1: "schema_store (snd (getitem E t st2)) = schema_store (snd (getitem E t st))"
    using s by simp
  obtain r1 a1 where a: "getitem E t st = (r1, a1)" by (cases "getitem E t st")
  obtain r2 a2 where b: "getitem E t st2 = (r2, a2)" by (cases "getitem E t st2")
  from g a b have r: "r2 = r1" by simp
  from s1 a b have st: "schema_store a2 = schema_store a1" by simp
  show ?thesis
    by (simp add: validate_body_def a b r st split: option.splits sum.splits)
qed

lemma validate'_same: "same_lookups E st (snd (validate' E obj t st))"
  using validate_body_same [of E st obj t]
  by (simp add: validate'_def case_prod_beta)

lemma validate'_cong:
  "same_lookups E st st2 \<Longrightarrow> fst (validate' E obj t st2) = fst (validate' E obj t st)"
  using validate_body_cong [of E st st2 obj t]
  by (simp add: validate'_def case_prod_beta)

lemma validate_each_cong:
  "same_lookups E st st2 \<Longrightarrow>
   fst (validate_each E obj ts errs st2) = fst (validate_each E obj ts errs st)"
proof (induction ts arbitrary: errs st st2)
  case Nil
  then show ?case by simp
next
  case (Cons t ts)
  obtain r1 a1 where a: "validate' E obj t st = (r1, a1)" by (cases "validate' E obj t st")
  obtain r2 a2 where b: "validate' E obj t st2 = (r2, a2)" by (cases "validate' E obj t st2")
  from validate'_cong [OF Cons.prems, of obj t] a b have r: "r2 = r1" by simp
  from validate'_same [of E st obj t] a have "same_lookups E st a1" by simp
  moreover from validate'_same [of E st2 obj t] b have "same_lookups E st2 a2" by simp
  ultimately have "same_lookups E a1 a2"
    using Cons.prems same_lookups_sym same_lookups_trans by blast
  from Cons.IH [OF this] show ?case
    by (cases r1) (simp_all add: a b r)
qed

lemma validate_each_same: "same_lookups E st (snd (validate_each E obj ts errs st))"
proof (induction ts arbitrary: errs st)
  case Nil
  then show ?case by simp
next
  case (Cons t ts)
  obtain r1 a1 where a: "validate' E obj t st = (r1, a1)" by (cases "validate' E obj t st")
  from validate'_same [of E st obj t] a have s: "same_lookups E st a1" by simp
  show ?case
  proof (cases r1)
    case (Inl e)
    with a s show ?thesis by simp
  next
    case (Inr es)
    with a s Cons.IH [of a1 "errs @ es"] show ?thesis
      by (simp add: same_lookups_trans)
  qed
qed

lemma validate_same: "same_lookups E st (snd (validate E obj tag_name st))"
  by (simp add: validate_def validate_each_same validate'_same split: option.splits)

lemma validate_cong:
  "same_lookups E st st2 \<Longrightarrow>
   fst (validate E obj tag_name st2) = fst (validate E obj tag_name st)"
  by (simp add: validate_def validate_each_cong validate'_cong split: option.splits)

subsection \<open>Runs in the example environment\<close>

lemma cache_ok_ex_state: "cache_ok ex_env ex_state"
  by (auto simp add: cache_ok_def ex_state_def ex_env_def abbrev_def ex_tag_def ex_get_data_def
        split: if_splits)

lemma abbrev_ex_unknown: "abbrev ex_env ''tag:a'' = None"
  by (simp add: abbrev_def ex_env_def ex_tag_def)

lemma abbrev_ex_empty: "abbrev ex_env [] = None"
  by (simp add: abbrev_def ex_env_def ex_tag_def)

lemma abbrev_ex_export: "abbrev ex_env ''tag:isrd.isi.edu,2016:export'' = Some ''export''"
  by (simp add: abbrev_def ex_env_def ex_tag_def)

lemma abbrev_ex_sources:
  "abbrev ex_env ''tag:isrd.isi.edu,2019:source-definitions'' = Some ''source_definitions''"
  by (simp add: abbrev_def ex_env_def ex_tag_def)

lemma abbrev_ex_visible:
  "abbrev ex_env ''tag:isrd.isi.edu,2016:visible-columns'' = Some ''visible_columns''"
  by (simp add: abbrev_def ex_env_def ex_tag_def)

lemma abbrev_ex_display: "abbrev ex_env ''tag:misd.isi.edu,2015:display'' = Some ''display''"
  by (simp add: abbrev_def ex_env_def ex_tag_def)

text \<open>\<open>ex_state\<close> is the state the import produces.\<close>

lemma module_init_ex: "module_init ex_env = Inr ex_state"
proof -
  have e: "export (tag ex_env) = ''tag:isrd.isi.edu,2016:export''"
    and s: "source_definitions (tag ex_env) = ''tag:isrd.isi.edu,2019:source-definitions''"
    by (simp_all add: ex_env_def ex_tag_def)
  have g1: "get_data ex_env ''schemas/export.schema.json'' = Inr export_doc"
    and g2: "get_data ex_env ''schemas/source_definitions.schema.json''
               = Inr source_definitions_doc"
    by (simp_all add: ex_env_def ex_get_data_def)
  have i1: "schema_id export_doc = Inr (JStr ''export.schema.json'')"
    and i2: "schema_id source_definitions_doc = Inr (JStr ''source_definitions.schema.json'')"
    by (simp_all add: export_doc_def source_definitions_doc_def)
  show ?thesis
    by (simp add: module_init_def e s getitem_def abbrev_ex_export abbrev_ex_sources g1 g2 i1 i2
          ex_state_def)
qed

lemma getitem_ex_visible:
  "getitem ex_env ''tag:isrd.isi.edu,2016:visible-columns'' ex_state
     = (Inr visible_columns_doc,
        ex_state\<lparr>schemas := (schemas ex_state)
                   (''tag:isrd.isi.edu,2016:visible-columns'' \<mapsto> visible_columns_doc)\<rparr>)"
proof -
  have "schemas ex_state ''tag:isrd.isi.edu,2016:visible-columns'' = None"
    by (simp add: ex_state_def)
  moreover have "get_data ex_env (py_format ''schemas/%s.schema.json'' [''visible_columns''])
                   = Inr visible_columns_doc"
    by (simp add: ex_env_def ex_get_data_def)
  ultimately show ?thesis
    by (simp add: getitem_def abbrev_ex_visible)
qed

lemma getitem_ex_sources:
  "getitem ex_env ''tag:isrd.isi.edu,2019:source-definitions'' ex_state
     = (Inr source_definitions_doc, ex_state)"
  by (simp add: getitem_def ex_state_def)

lemma validate_body_ex_sources:
  "validate_body ex_env T1_sources ''tag:isrd.isi.edu,2019:source-definitions'' ex_state
     = (Some AttributeError, ex_state)"
  by (simp add: validate_body_def getitem_ex_sources T1_sources_def)
     (simp add: ex_env_def ex_tag_def validate_source_key_fn_def sourcekeys_of_def)

lemma validate_source_key_fn_absent:
  "map_of (annotations obj) (source_definitions (tag E)) = None \<Longrightarrow>
   validate_source_key_fn (tag E) obj = Inr (source_key_func (JObj []))"
  by (simp add: validate_source_key_fn_def sourcekeys_of_def)

lemma validate_body_ex_visible:
  assumes "annotations obj = [(''tag:isrd.isi.edu,2016:visible-columns'', inst)]"
  shows "validate_body ex_env obj ''tag:isrd.isi.edu,2016:visible-columns'' ex_state
     = (validate_columns_fn obj (JBool True) inst visible_columns_doc,
        ex_state\<lparr>schemas := (schemas ex_state)
                   (''tag:isrd.isi.edu,2016:visible-columns'' \<mapsto> visible_columns_doc)\<rparr>)"
proof -
  have "map_of (annotations obj) (source_definitions (tag ex_env)) = None"
    by (simp add: assms ex_env_def ex_tag_def)
  then have "validate_source_key_fn (tag ex_env) obj = Inr (source_key_func (JObj []))"
    by (rule validate_source_key_fn_absent)
  moreover have "from_schema ex_env = (\<lambda>doc store. Inr (doc, store))"
    and "engine ex_env = keyword_engine"
    by (simp_all add: ex_env_def)
  ultimately show ?thesis
    by (simp add: validate_body_def getitem_ex_visible assms keyword_engine_def
          visible_columns_doc_def split: option.splits)
qed

lemma columns_T1_visible:
  "validate_columns_fn T1_visible (JBool True)
     (JArr [JStr ''A'', JArr [JStr ''schema1'', JStr ''K1''], JStr ''C'']) visible_columns_doc
   = Some (columns_error
       (JBool True, JArr [JStr ''A'', JArr [JStr ''schema1'', JStr ''K1''], JStr ''C''],
        visible_columns_doc) (JStr ''C''))"
  by (simp add: validate_columns_fn_def T1_visible_def T1_def table_attrs_def hasattr_def
        constraint_id_def columns_error_def)

lemma columns_T1_two_missing:
  "validate_columns_fn T1_two_missing (JBool True) (JArr [JStr ''C'', JStr ''D''])
     visible_columns_doc
   = Some (columns_error (JBool True, JArr [JStr ''C'', JStr ''D''], visible_columns_doc)
       (JStr ''C''))"
  by (simp add: validate_columns_fn_def T1_two_missing_def T1_def table_attrs_def hasattr_def
        columns_error_def)

text \<open>
  End to end: the visible-columns annotation of \<open>T1_visible\<close> fails the keyword
  \<^verbatim>\<open>valid-columns\<close> and surfaces as the one error that refers to \<^verbatim>\<open>"C"\<close>; the schema
  document is cached by the call.
\<close>

lemma validate'_ex_visible:
  "validate' ex_env T1_visible ''tag:isrd.isi.edu,2016:visible-columns'' ex_state
     = (Inr [columns_error
               (JBool True, JArr [JStr ''A'', JArr [JStr ''schema1'', JStr ''K1''], JStr ''C''],
                visible_columns_doc) (JStr ''C'')],
        ex_state\<lparr>schemas := (schemas ex_state)
                   (''tag:isrd.isi.edu,2016:visible-columns'' \<mapsto> visible_columns_doc)\<rparr>)"
proof -
  have "annotations T1_visible
          = [(''tag:isrd.isi.edu,2016:visible-columns'',
              JArr [JStr ''A'', JArr [JStr ''schema1'', JStr ''K1''], JStr ''C''])]"
    by (simp add: T1_visible_def)
  from validate_body_ex_visible [OF this] show ?thesis
    by (simp add: validate'_def columns_T1_visible columns_error_def)
qed

lemma validate'_ex_two_missing:
  "validate' ex_env T1_two_missing ''tag:isrd.isi.edu,2016:visible-columns'' ex_state
     = (Inr [columns_error (JBool True, JArr [JStr ''C'', JStr ''D''], visible_columns_doc)
               (JStr ''C'')],
        ex_state\<lparr>schemas := (schemas ex_state)
                   (''tag:isrd.isi.edu,2016:visible-columns'' \<mapsto> visible_columns_doc)\<rparr>)"
proof -
  have "annotations T1_two_missing
          = [(''tag:isrd.isi.edu,2016:visible-columns'', JArr [JStr ''C'', JStr ''D''])]"
    by (simp add: T1_two_missing_def)
  from validate_body_ex_visible [OF this] show ?thesis
    by (simp add: validate'_def columns_T1_two_missing columns_error_def)
qed

lemma validate_all_ex_visible:
  "fst (validate_each ex_env T1_visible (map fst (annotations T1_visible)) [] ex_state)
     = Inr [columns_error
              (JBool True, JArr [JStr ''A'', JArr [JStr ''schema1'', JStr ''K1''], JStr ''C''],
               visible_columns_doc) (JStr ''C'')]"
proof -
  have "map fst (annotations T1_visible) = [''tag:isrd.isi.edu,2016:visible-columns'']"
    by (simp add: T1_visible_def)
  then show ?thesis by (simp add: validate'_ex_visible)
qed

lemma validate'_ex_unknown:
  "abbrev ex_env t = None \<Longrightarrow> map_of (annotations obj) t = Some v \<Longrightarrow>
   validate' ex_env obj t ex_state = (Inr [unknown_tag_error t], ex_state)"
  by (simp add: validate'_def validate_body_def getitem_unregistered cache_ok_ex_state
        unknown_tag_error_def)

subsection \<open>Unknown tag names\<close>

text \<open>
  C4 (as amended). For a tag name \<open>t\<close> that has no registered abbreviation, is not empty and
  is a key of \<^verbatim>\<open>obj.annotations\<close>, \<^verbatim>\<open>validate(obj, t)\<close> does not raise and returns
  exactly one error, whose cause is the KeyError and whose message is
  \<^verbatim>\<open>Unknown annotation tag name "t"\<close>, so it contains \<open>t\<close>. The module state is any that
  satisfies the invariant of the schema container.
\<close>

theorem unknown_present_tag_single_error:
  assumes "abbrev E t = None" and "cache_ok E st" and "t \<noteq> []"
    and "map_of (annotations obj) t = Some v"
  shows "validate E obj (Some t) st = (Inr [unknown_tag_error t], st)
         \<and> cause (unknown_tag_error t) = Some KeyError
         \<and> message (unknown_tag_error t)
             = Some (Fmt (''Unknown annotation tag name '' @ [CHR 0x22] @ ''%s'' @ [CHR 0x22])
                       [JStr t])
         \<and> render str (Fmt (''Unknown annotation tag name '' @ [CHR 0x22] @ ''%s'' @ [CHR 0x22])
                          [JStr t])
             = ''Unknown annotation tag name '' @ [CHR 0x22] @ t @ [CHR 0x22]"
  using assms
  by (simp add: validate_single validate'_def validate_body_def getitem_unregistered
        unknown_tag_error_def)

text \<open>The tag name \<^verbatim>\<open>tag:a\<close> is not registered and annotates \<open>T1_unknown\<close>.\<close>

theorem unknown_present_tag_example:
  "abbrev ex_env ''tag:a'' = None \<and> cache_ok ex_env ex_state
   \<and> map_of (annotations T1_unknown) ''tag:a'' = Some JNull
   \<and> validate ex_env T1_unknown (Some ''tag:a'') ex_state
       = (Inr [unknown_tag_error ''tag:a''], ex_state)
   \<and> render (\<lambda>v. []) (Fmt (''Unknown annotation tag name '' @ [CHR 0x22] @ ''%s'' @ [CHR 0x22])
         [JStr ''tag:a''])
       = ''Unknown annotation tag name '' @ [CHR 0x22] @ ''tag:a'' @ [CHR 0x22]"
  using unknown_present_tag_single_error
          [of ex_env "''tag:a''" ex_state T1_unknown JNull "\<lambda>v. []"]
        cache_ok_ex_state abbrev_ex_unknown
  by (simp add: T1_unknown_def)

text \<open>
  Where the claim as written fails: \<^verbatim>\<open>tag:a\<close> is not registered and \<open>T1\<close> has no
  annotation; \<^verbatim>\<open>validate(T1, "tag:a")\<close> returns the empty list, not one error.
\<close>

theorem unknown_absent_tag_no_error:
  "abbrev ex_env ''tag:a'' = None
   \<and> validate ex_env T1 (Some ''tag:a'') ex_state = (Inr [], ex_state)"
  by (simp add: abbrev_ex_unknown validate_single validate'_absent T1_def)

subsection \<open>What escapes validate\<close>

text \<open>
  What the \<^verbatim>\<open>except\<close> clauses do hold back: for every model object and every tag argument
  (\<^verbatim>\<open>None\<close> included), no ValidationError, KeyError or FileNotFoundError leaves
  \<^verbatim>\<open>validate\<close>.
\<close>

lemma validate_never_raises_caught:
  "fst (validate E obj tag_name st) = Inl e \<Longrightarrow> \<not> caught e"
  using validate_each_uncaught validate'_uncaught
  by (auto simp add: validate_def split: option.splits if_splits)

text \<open>
  What they do not: an exception of another type raised in the \<^verbatim>\<open>try\<close> body leaves
  \<^verbatim>\<open>validate\<close>. The source-key factory raises one, AttributeError, whenever the object
  has a source-definitions annotation that is not a dict, whichever present tag is
  validated, once the schema of that tag is found and its resolver made.
\<close>

lemma uncaught_propagates:
  assumes "t \<noteq> []" and "fst (validate_body E obj t st) = Some e" and "\<not> caught e"
  shows "fst (validate E obj (Some t) st) = Inl e"
  using assms by (cases e) (simp_all add: validate_single validate'_def case_prod_beta)

lemma sourcekeys_of_not_dict:
  assumes "map_of (annotations obj) (source_definitions (tag E)) = Some a" and "\<not> is_dict a"
  shows "validate_source_key_fn (tag E) obj = Inl AttributeError"
  using assms by (cases a) (simp_all add: validate_source_key_fn_def sourcekeys_of_def)

lemma source_key_factory_raises:
  assumes "t \<noteq> []" and "map_of (annotations obj) t = Some v"
    and "fst (getitem E t st) = Inr doc"
    and "from_schema E doc (schema_store st) = Inr r"
    and "map_of (annotations obj) (source_definitions (tag E)) = Some a" and "\<not> is_dict a"
  shows "fst (validate E obj (Some t) st) = Inl AttributeError"
proof -
  obtain st' where g: "getitem E t st = (Inr doc, st')"
    using assms(3) by (cases "getitem E t st") simp
  then have "schema_store st' = schema_store st"
    using getitem_store [of E t st] by simp
  with g assms(2,4) sourcekeys_of_not_dict [OF assms(5,6)]
  have "fst (validate_body E obj t st) = Some AttributeError"
    by (simp add: validate_body_def)
  with assms(1) show ?thesis by (simp add: uncaught_propagates)
qed

lemma columns_T1_valid:
  assumes "column_definitions obj = column_definitions T1" and "attrs obj = attrs T1"
  shows "validate_columns_fn obj (JBool True) (JArr [JStr ''A'']) visible_columns_doc = None"
  using assms by (simp add: validate_columns_fn_def T1_def table_attrs_def hasattr_def)

text \<open>
  C5. \<^verbatim>\<open>validate\<close> is specified to return a list always and to let no exception reach
  the caller, for all annotation values. The code does not: \<^verbatim>\<open>_validate_source_key_fn\<close>
  reads \<^verbatim>\<open>model_obj.annotations.get(tag.source_definitions, {}).get('sources', {})\<close>
  inside the \<^verbatim>\<open>try\<close>; the defaults cover an annotation that is absent, not one that is
  not a dict. With the string \<^verbatim>\<open>"abc"\<close> as source-definitions annotation
  (\<open>T1_sources\<close>) \<^verbatim>\<open>validate\<close> raises AttributeError, for that tag and for
  \<^verbatim>\<open>tag_name=None\<close>; with \<^verbatim>\<open>null\<close> as source-definitions annotation
  (\<open>T1_null_sources\<close>) it raises AttributeError for the visible-columns tag too, whose
  annotation is valid and gives the empty list on the object without the
  source-definitions annotation (\<open>T1_valid\<close>).
\<close>

theorem validate_raises_attribute_error:
  "validate ex_env T1_sources (Some ''tag:isrd.isi.edu,2019:source-definitions'') ex_state
     = (Inl AttributeError, ex_state)
   \<and> validate ex_env T1_sources None ex_state = (Inl AttributeError, ex_state)
   \<and> fst (validate ex_env T1_null_sources (Some ''tag:isrd.isi.edu,2016:visible-columns'')
            ex_state)
       = Inl AttributeError
   \<and> fst (validate ex_env T1_valid (Some ''tag:isrd.isi.edu,2016:visible-columns'') ex_state)
       = Inr []"
proof -
  have 1: "validate ex_env T1_sources (Some ''tag:isrd.isi.edu,2019:source-definitions'')
             ex_state = (Inl AttributeError, ex_state)"
    by (simp add: validate_def validate'_def validate_body_ex_sources)
  have 2: "validate ex_env T1_sources None ex_state = (Inl AttributeError, ex_state)"
    by (simp add: validate_def)
       (simp add: T1_sources_def validate'_def validate_body_ex_sources [unfolded T1_sources_def])
  have 3: "fst (validate ex_env T1_null_sources (Some ''tag:isrd.isi.edu,2016:visible-columns'')
                  ex_state) = Inl AttributeError"
  proof (rule source_key_factory_raises)
    show "''tag:isrd.isi.edu,2016:visible-columns'' \<noteq> []" by simp
    show "map_of (annotations T1_null_sources) ''tag:isrd.isi.edu,2016:visible-columns''
            = Some (JArr [JStr ''A''])"
      by (simp add: T1_null_sources_def)
    show "fst (getitem ex_env ''tag:isrd.isi.edu,2016:visible-columns'' ex_state)
            = Inr visible_columns_doc"
      by (simp add: getitem_ex_visible)
    show "from_schema ex_env visible_columns_doc (schema_store ex_state)
            = Inr (visible_columns_doc, schema_store ex_state)"
      by (simp add: ex_env_def)
    show "map_of (annotations T1_null_sources) (source_definitions (tag ex_env)) = Some JNull"
      by (simp add: T1_null_sources_def ex_env_def ex_tag_def)
    show "\<not> is_dict JNull" by simp
  qed
  have "annotations T1_valid
          = [(''tag:isrd.isi.edu,2016:visible-columns'', JArr [JStr ''A''])]"
    by (simp add: T1_valid_def)
  from validate_body_ex_visible [OF this]
  have 4: "fst (validate ex_env T1_valid (Some ''tag:isrd.isi.edu,2016:visible-columns'')
                  ex_state) = Inr []"
    by (simp add: validate_single validate'_def columns_T1_valid T1_valid_def)
  from 1 2 3 4 show ?thesis by simp
qed

subsection \<open>Tags that are not present, schemas that are missing\<close>

text \<open>
  C6. For a registered tag \<open>t\<close> that is not a key of \<^verbatim>\<open>obj.annotations\<close>,
  \<^verbatim>\<open>validate(obj, t)\<close> returns the empty list and leaves the module state as it was; the
  same holds of every other object that lacks \<open>t\<close> and of every other environment, so
  nothing of the object is read but the presence of \<open>t\<close>. The registry holds no empty tag
  name (an empty \<^verbatim>\<open>tag_name\<close> selects all annotations).
\<close>

theorem registered_absent_tag_no_error:
  assumes "abbrev E t = Some a" and "abbrev E [] = None"
    and "map_of (annotations obj) t = None"
  shows "validate E obj (Some t) st = (Inr [], st)
         \<and> (\<forall>E' obj'. map_of (annotations obj') t = None
               \<longrightarrow> validate E' obj' (Some t) st = validate E obj (Some t) st)"
proof -
  from assms(1,2) have "t \<noteq> []" by auto
  with assms(3) show ?thesis by (simp add: validate_single validate'_absent)
qed

text \<open>The export tag is registered and does not annotate \<open>T1_visible\<close>.\<close>

theorem registered_absent_tag_example:
  "abbrev ex_env ''tag:isrd.isi.edu,2016:export'' = Some ''export''
   \<and> abbrev ex_env [] = None
   \<and> map_of (annotations T1_visible) ''tag:isrd.isi.edu,2016:export'' = None
   \<and> validate ex_env T1_visible (Some ''tag:isrd.isi.edu,2016:export'') ex_state
       = (Inr [], ex_state)"
  using registered_absent_tag_no_error
          [of ex_env "''tag:isrd.isi.edu,2016:export''" "''export''" T1_visible ex_state]
        abbrev_ex_export abbrev_ex_empty
  by (simp add: T1_visible_def)

text \<open>
  C7. For a registered tag \<open>t\<close> that is a key of \<^verbatim>\<open>obj.annotations\<close> and whose schema
  resource \<^verbatim>\<open>schemas/<abbrev>.schema.json\<close> does not exist (the load raises
  FileNotFoundError), \<^verbatim>\<open>validate(obj, t)\<close> returns the empty list. The module state is any
  that satisfies the invariant of the schema container; the registry holds no empty tag name.
\<close>

theorem missing_schema_resource_no_error:
  assumes "abbrev E t = Some a" and "abbrev E [] = None"
    and "get_data E (py_format ''schemas/%s.schema.json'' [a]) = Inl FileNotFoundError"
    and "cache_ok E st"
    and "map_of (annotations obj) t = Some v"
  shows "validate E obj (Some t) st = (Inr [], st)"
proof -
  from assms(1,2) have "t \<noteq> []" by auto
  moreover from assms(1,3,4) have "getitem E t st = (Inl FileNotFoundError, st)"
    by (rule getitem_missing)
  ultimately show ?thesis
    using assms(5) by (simp add: validate_single validate'_def validate_body_def)
qed

text \<open>The display tag is registered, annotates \<open>T1_display\<close>, and has no schema resource.\<close>

theorem missing_schema_resource_example:
  "abbrev ex_env ''tag:misd.isi.edu,2015:display'' = Some ''display''
   \<and> get_data ex_env (py_format ''schemas/%s.schema.json'' [''display'']) = Inl FileNotFoundError
   \<and> cache_ok ex_env ex_state
   \<and> map_of (annotations T1_display) ''tag:misd.isi.edu,2015:display'' = Some (JObj [])
   \<and> validate ex_env T1_display (Some ''tag:misd.isi.edu,2015:display'') ex_state
       = (Inr [], ex_state)"
proof -
  have g: "get_data ex_env (py_format ''schemas/%s.schema.json'' [''display''])
             = Inl FileNotFoundError"
    by (simp add: ex_env_def ex_get_data_def)
  have m: "map_of (annotations T1_display) ''tag:misd.isi.edu,2015:display'' = Some (JObj [])"
    by (simp add: T1_display_def)
  from missing_schema_resource_no_error
         [OF abbrev_ex_display abbrev_ex_empty g cache_ok_ex_state m]
       abbrev_ex_display g cache_ok_ex_state m
  show ?thesis by simp
qed

subsection \<open>At most one error for one tag\<close>

text \<open>
  C8 (as amended). For every model object and every tag name \<open>t\<close> that is not empty,
  \<^verbatim>\<open>validate(obj, t)\<close> either returns a list of at most one error, however many violations
  the annotation holds, or raises an exception that no \<^verbatim>\<open>except\<close> clause catches.
\<close>

theorem single_tag_at_most_one_error:
  assumes "t \<noteq> []"
  shows "case fst (validate E obj (Some t) st) of
           Inr errors \<Rightarrow> length errors \<le> 1
         | Inl e \<Rightarrow> \<not> caught e"
  using assms validate'_cases [of E obj t st] by (simp add: validate_single)

text \<open>
  The visible-columns annotation of \<open>T1_two_missing\<close> names two columns that do not exist;
  the call reports the first.
\<close>

theorem single_tag_example:
  "map_of (annotations T1_two_missing) ''tag:isrd.isi.edu,2016:visible-columns''
     = Some (JArr [JStr ''C'', JStr ''D''])
   \<and> offending T1_two_missing (JStr ''C'') \<and> offending T1_two_missing (JStr ''D'')
   \<and> fst (validate ex_env T1_two_missing (Some ''tag:isrd.isi.edu,2016:visible-columns'')
            ex_state)
       = Inr [columns_error (JBool True, JArr [JStr ''C'', JStr ''D''], visible_columns_doc)
                (JStr ''C'')]"
  using single_tag_at_most_one_error
          [of "''tag:isrd.isi.edu,2016:visible-columns''" ex_env T1_two_missing ex_state]
  by (simp add: validate_single validate'_ex_two_missing)
     (simp add: T1_two_missing_def T1_def offending_def)

text \<open>
  Where the claim as written fails: the empty string is not \<^verbatim>\<open>None\<close>, yet
  \<^verbatim>\<open>not tag_name\<close> holds for it, so \<^verbatim>\<open>validate(obj, "")\<close> validates every annotation;
  for \<open>T1_unknown\<close> it returns two errors.
\<close>

theorem empty_tag_name_two_errors:
  "validate ex_env T1_unknown (Some []) ex_state
     = (Inr [unknown_tag_error ''tag:a'', unknown_tag_error ''tag:b''], ex_state)"
proof -
  have a: "abbrev ex_env ''tag:a'' = None" and b: "abbrev ex_env ''tag:b'' = None"
    by (simp_all add: abbrev_def ex_env_def ex_tag_def)
  have "validate' ex_env T1_unknown ''tag:a'' ex_state
          = (Inr [unknown_tag_error ''tag:a''], ex_state)"
    by (rule validate'_ex_unknown [OF a]) (simp add: T1_unknown_def)
  moreover have "validate' ex_env T1_unknown ''tag:b'' ex_state
          = (Inr [unknown_tag_error ''tag:b''], ex_state)"
    by (rule validate'_ex_unknown [OF b]) (simp add: T1_unknown_def)
  moreover have "map fst (annotations T1_unknown) = [''tag:a'', ''tag:b'']"
    by (simp add: T1_unknown_def)
  ultimately show ?thesis by (simp add: validate_def)
qed

subsection \<open>Calling twice\<close>

text \<open>
  C9. For every model object and tag argument, a second call of \<^verbatim>\<open>validate(obj, t)\<close>,
  run in the module state the first call left, gives the result of the first call: the
  documents the first call cached answer the lookups as the loads did. The same holds
  after any other call of \<^verbatim>\<open>validate\<close>.
\<close>

theorem validate_twice_same:
  "fst (validate E obj tag_name (snd (validate E obj tag_name st)))
     = fst (validate E obj tag_name st)
   \<and> fst (validate E obj tag_name (snd (validate E obj' tag_name' st)))
       = fst (validate E obj tag_name st)"
  by (simp add: validate_cong [OF validate_same])

text \<open>
  The first call for the visible-columns tag loads and caches the schema document; the
  second call reads the cache and reports the same error.
\<close>

theorem validate_twice_example:
  "schemas ex_state ''tag:isrd.isi.edu,2016:visible-columns'' = None
   \<and> schemas (snd (validate ex_env T1_visible (Some ''tag:isrd.isi.edu,2016:visible-columns'')
                     ex_state)) ''tag:isrd.isi.edu,2016:visible-columns''
       = Some visible_columns_doc
   \<and> fst (validate ex_env T1_visible (Some ''tag:isrd.isi.edu,2016:visible-columns'')
            (snd (validate ex_env T1_visible (Some ''tag:isrd.isi.edu,2016:visible-columns'')
                    ex_state)))
       = Inr [columns_error
                (JBool True, JArr [JStr ''A'', JArr [JStr ''schema1'', JStr ''K1''], JStr ''C''],
                 visible_columns_doc) (JStr ''C'')]"
  using validate_twice_same
          [of ex_env T1_visible "Some ''tag:isrd.isi.edu,2016:visible-columns''" ex_state
              T1_visible "Some ''tag:isrd.isi.edu,2016:visible-columns''"]
  by (simp add: validate_single validate'_ex_visible) (simp add: ex_state_def)

subsection \<open>The presence check comes first\<close>

text \<open>
  C10 (as amended). For every model object and every tag name \<open>t\<close> that is not a key of
  \<^verbatim>\<open>obj.annotations\<close>, registered or not, \<^verbatim>\<open>_validate(obj, t)\<close> returns the empty list
  and leaves the module state as it was: the presence check comes before the lookup in the
  registry. So does \<^verbatim>\<open>validate(obj, t)\<close> when \<open>t\<close> is not empty.
\<close>

theorem absent_tag_no_error:
  assumes "map_of (annotations obj) t = None"
  shows "validate' E obj t st = (Inr [], st)
         \<and> (t \<noteq> [] \<longrightarrow> validate E obj (Some t) st = (Inr [], st))"
  using assms by (simp add: validate_single validate'_absent)

text \<open>The tag name \<^verbatim>\<open>tag:a\<close> is not registered and does not annotate \<open>T1_visible\<close>.\<close>

theorem absent_tag_example:
  "abbrev ex_env ''tag:a'' = None
   \<and> map_of (annotations T1_visible) ''tag:a'' = None
   \<and> validate ex_env T1_visible (Some ''tag:a'') ex_state = (Inr [], ex_state)"
  using absent_tag_no_error [of T1_visible "''tag:a''" ex_env ex_state] abbrev_ex_unknown
  by (simp add: T1_visible_def)

text \<open>
  Where the claim as written fails: the empty string is not a key of the annotations of
  \<open>T1_visible\<close>, and \<^verbatim>\<open>validate(T1_visible, "")\<close> validates every annotation and returns
  an error.
\<close>

theorem empty_tag_name_not_absent:
  "map_of (annotations T1_visible) [] = None
   \<and> fst (validate ex_env T1_visible (Some []) ex_state)
       = Inr [columns_error
                (JBool True, JArr [JStr ''A'', JArr [JStr ''schema1'', JStr ''K1''], JStr ''C''],
                 visible_columns_doc) (JStr ''C'')]"
  by (simp add: validate_def validate_all_ex_visible) (simp add: T1_visible_def)

end
